theory Spec2Isabelle
  imports Complex_Main
begin


section \<open>Python values the notebook relies on\<close>

text \<open>
  The notebook \<^verbatim>\<open>examples/sparse_cnn.ipynb\<close> defines the image transform
  \<^verbatim>\<open>RandomNoise\<close>, the loops \<^verbatim>\<open>train\<close> and \<^verbatim>\<open>test\<close>, and a script that
  runs them.
\<close>

datatype py_error = IndexError | RuntimeError | ZeroDivisionError | OverflowError | ValueError

subsection \<open>Floating-point numbers\<close>

text \<open>
  A Python float is a binary64 number: a finite real of that format, an infinity or a
  not-a-number. The transform multiplies and truncates floats, and stores a float
  into a tensor of single or double precision, so the rounding of both formats is
  written out: round to nearest, ties to even.
\<close>

datatype py_float = Finite real | PosInf | NegInf | NaN

text \<open>The power of two with an integer exponent.\<close>

definition pow2 :: "int \<Rightarrow> real" where
  "pow2 e = (if 0 \<le> e then 2 ^ nat e else 1 / 2 ^ nat (- e))"

text \<open>
  The binary exponent of a positive real \<open>x\<close>, the \<open>e\<close> with \<open>2^e \<le> x < 2^(e+1)\<close>, found by
  halving or doubling at most \<open>n\<close> times. The formats below need exponents between
  \<open>-1074\<close> and \<open>1024\<close> only.
\<close>

fun binary_exponent :: "nat \<Rightarrow> real \<Rightarrow> int" where
  "binary_exponent 0 x = 0"
| "binary_exponent (Suc n) x =
     (if 2 \<le> x then binary_exponent n (x / 2) + 1
      else if x < 1 then binary_exponent n (2 * x) - 1
      else 0)"

text \<open>The integer nearest to \<open>q\<close>; of two equally near integers, the even one.\<close>

definition round_half_even :: "real \<Rightarrow> int" where
  "round_half_even q =
     (let f = \<lfloor>q\<rfloor>
      in if q - of_int f < 1 / 2 then f
         else if 1 / 2 < q - of_int f then f + 1
         else if even f then f else f + 1)"

text \<open>
  Rounding a real to a binary format with \<open>prec\<close> significant bits, least exponent \<open>emin\<close>
  of a unit in the last place (so that subnormal numbers are covered) and overflow to
  infinity from \<open>2^emax\<close> on: the real is rounded to the nearest multiple of its unit in
  the last place, and a result of magnitude \<open>2^emax\<close> or more is an infinity.
\<close>

definition ulp_exponent :: "nat \<Rightarrow> int \<Rightarrow> real \<Rightarrow> int" where
  "ulp_exponent prec emin x = max (binary_exponent 2200 \<bar>x\<bar> - int prec + 1) emin"

definition round_to_grid :: "int \<Rightarrow> real \<Rightarrow> real" where
  "round_to_grid e x = of_int (round_half_even (x / pow2 e)) * pow2 e"

definition overflow_check :: "int \<Rightarrow> real \<Rightarrow> py_float" where
  "overflow_check emax y =
     (if pow2 emax \<le> \<bar>y\<bar> then (if 0 < y then PosInf else NegInf) else Finite y)"

definition float_round :: "nat \<Rightarrow> int \<Rightarrow> int \<Rightarrow> real \<Rightarrow> py_float" where
  "float_round prec emin emax x =
     (if x = 0 then Finite 0
      else overflow_check emax (round_to_grid (ulp_exponent prec emin x) x))"

definition float64 :: "real \<Rightarrow> py_float" where
  "float64 x = float_round 53 (- 1074) 1024 x"

definition float32 :: "real \<Rightarrow> py_float" where
  "float32 x = float_round 24 (- 149) 128 x"

text \<open>
  The product \<^verbatim>\<open>n * p\<close> of an integer and a float: the integer is converted to a float
  first, which raises when it is too large, and the product of the two floats is rounded.
\<close>

definition int_to_float :: "nat \<Rightarrow> py_error + real" where
  "int_to_float n = (case float64 (real n) of Finite y \<Rightarrow> Inr y | _ \<Rightarrow> Inl OverflowError)"

fun float_mul :: "real \<Rightarrow> py_float \<Rightarrow> py_float" where
  "float_mul a (Finite b) = float64 (a * b)"
| "float_mul a PosInf = (if a = 0 then NaN else if 0 < a then PosInf else NegInf)"
| "float_mul a NegInf = (if a = 0 then NaN else if 0 < a then NegInf else PosInf)"
| "float_mul a NaN = NaN"

text \<open>
  Python's \<^verbatim>\<open>int(x)\<close> on a float truncates towards zero; it raises on an infinity
  and on a not-a-number.
\<close>

fun py_int :: "py_float \<Rightarrow> py_error + int" where
  "py_int (Finite x) = Inr (if 0 \<le> x then \<lfloor>x\<rfloor> else \<lceil>x\<rceil>)"
| "py_int PosInf = Inl OverflowError"
| "py_int NegInf = Inl OverflowError"
| "py_int NaN = Inl ValueError"

text \<open>
  The slice \<^verbatim>\<open>xs[0:k]\<close>: a negative bound counts from the end, and bounds beyond the
  ends are clipped.
\<close>

definition slice_upto :: "'a list \<Rightarrow> int \<Rightarrow> 'a list" where
  "slice_upto xs k =
     (if 0 \<le> k then take (nat k) xs else take (nat (int (length xs) + k)) xs)"

text \<open>
  The indexed assignment \<^verbatim>\<open>a[idx] = v\<close> with an array of indices: every listed
  position receives \<open>v\<close>; an index outside the tensor raises.
\<close>

definition index_assign :: "'a list \<Rightarrow> nat list \<Rightarrow> 'a \<Rightarrow> py_error + 'a list" where
  "index_assign a idx v =
     (if list_all (\<lambda>i. i < length a) idx
      then Inr (fold (\<lambda>i b. b[i := v]) idx a)
      else Inl IndexError)"

section \<open>The noise transform\<close>

text \<open>
  \<^verbatim>\<open>
  class RandomNoise(object):
      def __init__(self, noise_level=0.0, white_value=0.1307 + 2*0.3081):
          self.noise_level = noise_level
          self.white_value = white_value

      def __call__(self, image):
          a = image.view(-1)
          num_noise_bits = int(a.shape[0] * self.noise_level)
          noise = np.random.permutation(a.shape[0])[0:num_noise_bits]
          a[noise] = self.white_value
          return image
  \<close>
  Both attributes are Python floats.
\<close>

record RandomNoise =
  noise_level :: py_float
  white_value :: py_float

definition RandomNoise_init :: "py_float \<Rightarrow> py_float \<Rightarrow> RandomNoise" where
  "RandomNoise_init nl wv = \<lparr>noise_level = nl, white_value = wv\<rparr>"

text \<open>
  The constructor called with no arguments takes both defaults. The default white value
  is the float that \<^verbatim>\<open>0.1307 + 2*0.3081\<close> evaluates to: each literal, the product and
  the sum are rounded.
\<close>

definition float_add :: "py_float \<Rightarrow> py_float \<Rightarrow> py_float" where
  "float_add a b =
     (case (a, b) of
        (Finite x, Finite y) \<Rightarrow> float64 (x + y)
      | (NaN, _) \<Rightarrow> NaN
      | (_, NaN) \<Rightarrow> NaN
      | (PosInf, NegInf) \<Rightarrow> NaN
      | (NegInf, PosInf) \<Rightarrow> NaN
      | (PosInf, _) \<Rightarrow> PosInf
      | (NegInf, _) \<Rightarrow> NegInf
      | (_, PosInf) \<Rightarrow> PosInf
      | (_, NegInf) \<Rightarrow> NegInf)"

definition default_white_value :: py_float where
  "default_white_value =
     float_add (float64 (1307 / 10000)) (float_mul 2 (float64 (3081 / 10000)))"

definition RandomNoise_default :: RandomNoise where
  "RandomNoise_default = RandomNoise_init (Finite 0) default_white_value"

text \<open>
  A tensor is an object on the heap: the state maps each tensor reference to the tensor,
  which has its elements in the flat order that \<^verbatim>\<open>view(-1)\<close> exposes, its element
  type, and whether its sizes and strides admit the flat view: \<^verbatim>\<open>image.view(-1)\<close>
  raises a RuntimeError when they do not, and they do for a contiguous tensor. Pixel
  intensities are floating-point numbers of single precision, as \<^verbatim>\<open>ToTensor\<close> gives
  them, or of double precision; tensors of other element types are not covered. The view \<open>a\<close>
  shares the storage of the image, so writing through \<open>a\<close> writes the image. The state
  also carries numpy's global generator state.
\<close>

datatype dtype = Float32 | Float64

record tensor =
  elems :: "py_float list"
  dtype :: dtype
  viewable :: bool

type_synonym tensor_ref = nat

record 'g py_state =
  np_rng :: 'g
  tensors :: "tensor_ref \<Rightarrow> tensor"

text \<open>
  Storing a Python float into a tensor converts it to the element type of the tensor.
\<close>

fun store_cast :: "dtype \<Rightarrow> py_float \<Rightarrow> py_float" where
  "store_cast Float32 (Finite x) = float32 x"
| "store_cast Float64 (Finite x) = float64 x"
| "store_cast d v = v"

text \<open>
  \<^verbatim>\<open>np.random.permutation\<close> belongs to numpy, not to this repository. It is taken as
  a parameter \<open>perm\<close>: from the generator state and \<open>n\<close> it gives the drawn ordering of
  \<open>range(n)\<close> and the next generator state. What numpy promises of the ordering is the
  predicate below.
\<close>

type_synonym 'g np_permutation = "'g \<Rightarrow> nat \<Rightarrow> nat list \<times> 'g"

definition is_permutation_of_range :: "nat list \<Rightarrow> nat \<Rightarrow> bool" where
  "is_permutation_of_range p n \<longleftrightarrow>
     length p = n \<and> distinct p \<and> list_all (\<lambda>i. i < n) p"

text \<open>
  The float \<^verbatim>\<open>a.shape[0] * self.noise_level\<close> and the value of the local variable
  \<open>num_noise_bits\<close>, when the conversions do not raise.
\<close>

definition noise_product :: "RandomNoise \<Rightarrow> tensor \<Rightarrow> py_error + py_float" where
  "noise_product self t =
     (case int_to_float (length (elems t)) of
        Inl e \<Rightarrow> Inl e
      | Inr n \<Rightarrow> Inr (float_mul n (noise_level self)))"

definition num_noise_bits :: "RandomNoise \<Rightarrow> tensor \<Rightarrow> py_error + int" where
  "num_noise_bits self t =
     (case noise_product self t of
        Inl e \<Rightarrow> Inl e
      | Inr x \<Rightarrow> py_int x)"

text \<open>
  The value of the local variable \<open>noise\<close>, the selected pixel positions. When the call
  raises before the assignment, no position is selected.
\<close>

definition noise_positions ::
  "'g np_permutation \<Rightarrow> RandomNoise \<Rightarrow> tensor_ref \<Rightarrow> 'g py_state \<Rightarrow> nat list" where
  "noise_positions perm self img s =
     (let t = tensors s img
      in if \<not> viewable t then []
         else
           case num_noise_bits self t of
             Inl e \<Rightarrow> []
           | Inr k \<Rightarrow> slice_upto (fst (perm (np_rng s) (length (elems t)))) k)"

definition RandomNoise_call ::
  "'g np_permutation \<Rightarrow> RandomNoise \<Rightarrow> tensor_ref \<Rightarrow> 'g py_state
     \<Rightarrow> (py_error + tensor_ref) \<times> 'g py_state" where
  "RandomNoise_call perm self img s =
     (let t = tensors s img
      in if \<not> viewable t then (Inl RuntimeError, s)
         else
           case num_noise_bits self t of
             Inl e \<Rightarrow> (Inl e, s)
           | Inr k \<Rightarrow>
               (let noise = noise_positions perm self img s;
                    s1 = s\<lparr>np_rng := snd (perm (np_rng s) (length (elems t)))\<rparr>
                in case index_assign (elems t) noise (store_cast (dtype t) (white_value self)) of
                     Inl e \<Rightarrow> (Inl e, s1)
                   | Inr a' \<Rightarrow>
                       (Inr img, s1\<lparr>tensors := (tensors s1)(img := t\<lparr>elems := a'\<rparr>)\<rparr>)))"


text \<open>
  A run of the transform from a seed: \<^verbatim>\<open>np.random.seed(seed)\<close> installs the
  generator state that the seed determines (the parameter \<open>seed_state\<close>), then the
  transform is called.
\<close>

definition seeded_call ::
  "(nat \<Rightarrow> 'g) \<Rightarrow> 'g np_permutation \<Rightarrow> nat \<Rightarrow> RandomNoise \<Rightarrow> tensor_ref \<Rightarrow> 'g py_state
     \<Rightarrow> (py_error + tensor_ref) \<times> 'g py_state" where
  "seeded_call seed_state perm seed self img s =
     RandomNoise_call perm self img (s\<lparr>np_rng := seed_state seed\<rparr>)"

subsection \<open>Worked examples of the transform\<close>

text \<open>
  A generator whose draw is the reversed range, and a state with four tensors: a
  double-precision image of four pixels whose third pixel holds \<open>3/4\<close>, a black
  double-precision image of three pixels, a copy of the first image whose layout does
  not admit the flat view, and a black single-precision image of two pixels.
\<close>

definition example_perm :: "nat np_permutation" where
  "example_perm g n = (rev [0..<n], Suc g)"

definition example_image :: tensor where
  "example_image =
     \<lparr>elems = [Finite 0, Finite (1 / 4), Finite (3 / 4), Finite 1],
      dtype = Float64, viewable = True\<rparr>"

definition example_state :: "nat py_state" where
  "example_state =
     \<lparr>np_rng = 18,
      tensors = (\<lambda>r. if r = 1 then
                        \<lparr>elems = [Finite 0, Finite 0, Finite 0], dtype = Float64,
                         viewable = True\<rparr>
                      else if r = 2 then example_image\<lparr>viewable := False\<rparr>
                      else if r = 3 then
                        \<lparr>elems = [Finite 0, Finite 0], dtype = Float32, viewable = True\<rparr>
                      else example_image)\<rparr>"

definition example_state2 :: "nat py_state" where
  "example_state2 =
     \<lparr>np_rng = 5,
      tensors = (\<lambda>r. if r = 7 then example_image
                      else \<lparr>elems = [Finite (1 / 2)], dtype = Float32, viewable = True\<rparr>)\<rparr>"

text \<open>
  Transforms with white value \<open>3/4\<close>: with noise level one half; with the float nearest
  to one third; with a negative level; with a level that is not a number. And the
  transform with noise level one and the default white value.
\<close>

definition example_noise :: RandomNoise where
  "example_noise = RandomNoise_init (Finite (1 / 2)) (Finite (3 / 4))"

definition third_noise :: RandomNoise where
  "third_noise =
     RandomNoise_init (Finite (6004799503160661 / 18014398509481984)) (Finite (3 / 4))"

definition negative_noise :: RandomNoise where
  "negative_noise = RandomNoise_init (Finite (- 1 / 2)) (Finite (3 / 4))"

definition nan_noise :: RandomNoise where
  "nan_noise = RandomNoise_init NaN (Finite (3 / 4))"

definition full_noise :: RandomNoise where
  "full_noise = RandomNoise_init (Finite 1) default_white_value"

section \<open>The training and evaluation loops\<close>

subsection \<open>The objects the loops are given\<close>

text \<open>
  The loops drive objects of the numerical framework: a model, an optimizer, a loss
  function and a data loader. Their code is not part of the notebook, so each operation
  the loops call is a parameter. The type \<open>'w\<close> stands for everything those objects own
  and mutate (parameter tensors, gradients, momentum buffers, the training flag, the
  generators' states); \<open>'d\<close> is a batch of inputs, \<open>'o\<close> a batch of outputs, \<open>'l\<close> a loss
  tensor. Class labels are natural numbers, a batch of targets is a list of labels.
\<close>

datatype reduction = Mean | Sum

record ('w, 'd, 'o) nn_module =
  train_mode :: "'w \<Rightarrow> 'w"
  eval_mode :: "'w \<Rightarrow> 'w"
  call :: "'d \<Rightarrow> 'w \<Rightarrow> 'o \<times> 'w"

record 'w optimizer =
  zero_grad :: "'w \<Rightarrow> 'w"
  step :: "'w \<Rightarrow> 'w"

text \<open>
  A loss function takes the outputs, the targets and the \<^verbatim>\<open>reduction\<close> keyword, whose
  default is the mean over the batch.
\<close>

type_synonym ('o, 'l) criterion = "'o \<Rightarrow> nat list \<Rightarrow> reduction \<Rightarrow> 'l"

text \<open>
  The datasets and loaders of the notebook are built from constructor arguments; the
  records keep those arguments.
\<close>

datatype transform = ToTensor | Normalize real real | Noise RandomNoise

record dataset =
  root :: string
  train_split :: bool
  transforms :: "transform list"

record loader =
  dataset :: dataset
  batch_size :: nat
  shuffle :: bool

text \<open>
  The remaining framework operations: \<^verbatim>\<open>loss.backward()\<close>, \<^verbatim>\<open>.item()\<close>,
  \<^verbatim>\<open>output.argmax(dim=1)\<close>, entering and leaving \<^verbatim>\<open>torch.no_grad()\<close>, one pass
  over a loader (the batches it yields, in order, and the state it leaves) and
  \<^verbatim>\<open>len(loader.dataset)\<close>.
\<close>

record ('w, 'd, 'o, 'l) torch =
  backward :: "'l \<Rightarrow> 'w \<Rightarrow> 'w"
  item :: "'l \<Rightarrow> real"
  argmax_dim1 :: "'o \<Rightarrow> nat list"
  no_grad_enter :: "'w \<Rightarrow> 'w"
  no_grad_exit :: "'w \<Rightarrow> 'w"
  iterate :: "loader \<Rightarrow> 'w \<Rightarrow> ('d \<times> nat list) list \<times> 'w"
  dataset_len :: "dataset \<Rightarrow> nat"

subsection \<open>Program state and the record of calls\<close>

text \<open>
  The order in which the loops call the framework is part of what they do. The program
  state therefore carries, next to the framework's state, the list of calls made so far.
\<close>

datatype event =
    ModelTrain
  | ModelEval
  | NoGradEnter
  | NoGradExit
  | Iterate loader
  | ZeroGrad
  | Forward
  | Criterion reduction
  | Backward
  | OptimizerStep
  | PostBatchCallback
  | UpdateBoostStrength
  | Print

record 'w run_state =
  world :: 'w
  trace :: "event list"

definition effect :: "event \<Rightarrow> ('w \<Rightarrow> 'w) \<Rightarrow> 'w run_state \<Rightarrow> 'w run_state" where
  "effect e f s = \<lparr>world = f (world s), trace = trace s @ [e]\<rparr>"

subsection \<open>train\<close>

text \<open>
  \<^verbatim>\<open>
  def train(model, loader, optimizer, criterion, post_batch_callback=None):
      model.train()
      for batch_idx, (data, target) in enumerate(tqdm(loader, leave=False)):
          data, target = data.to(device), target.to(device)
          optimizer.zero_grad()
          output = model(data)
          loss = criterion(output, target)
          loss.backward()
          optimizer.step()
          if post_batch_callback is not None:
              post_batch_callback(model)
  \<close>
  The progress bar \<^verbatim>\<open>tqdm\<close> passes the batches through and \<^verbatim>\<open>.to(device)\<close> gives
  the same tensor on the device; both are the identity here. The body of the loop is
  \<open>train_batch\<close>.
\<close>

definition train_batch ::
  "('w, 'd, 'o, 'l) torch \<Rightarrow> ('w, 'd, 'o) nn_module \<Rightarrow> 'w optimizer \<Rightarrow> ('o, 'l) criterion
     \<Rightarrow> ('w \<Rightarrow> 'w) option \<Rightarrow> 'd \<times> nat list \<Rightarrow> 'w run_state \<Rightarrow> 'w run_state" where
  "train_batch T model optimizer criterion post_batch_callback batch s =
     (let data = fst batch;
          target = snd batch;
          s1 = effect ZeroGrad (zero_grad optimizer) s;
          output = fst (call model data (world s1));
          s2 = effect Forward (\<lambda>w. snd (call model data w)) s1;
          loss = criterion output target Mean;
          s3 = effect (Criterion Mean) (\<lambda>w. w) s2;
          s4 = effect Backward (backward T loss) s3;
          s5 = effect OptimizerStep (step optimizer) s4
      in case post_batch_callback of
           None \<Rightarrow> s5
         | Some cb \<Rightarrow> effect PostBatchCallback cb s5)"

definition train ::
  "('w, 'd, 'o, 'l) torch \<Rightarrow> ('w, 'd, 'o) nn_module \<Rightarrow> loader \<Rightarrow> 'w optimizer
     \<Rightarrow> ('o, 'l) criterion \<Rightarrow> ('w \<Rightarrow> 'w) option \<Rightarrow> 'w run_state \<Rightarrow> 'w run_state" where
  "train T model loader optimizer criterion post_batch_callback s =
     (let s1 = effect ModelTrain (train_mode model) s;
          batches = fst (iterate T loader (world s1));
          s2 = effect (Iterate loader) (\<lambda>w. snd (iterate T loader w)) s1
      in fold (train_batch T model optimizer criterion post_batch_callback) batches s2)"

text \<open>The calls one batch of \<open>train\<close> makes, in order.\<close>

definition batch_events :: "('w \<Rightarrow> 'w) option \<Rightarrow> event list" where
  "batch_events post_batch_callback =
     [ZeroGrad, Forward, Criterion Mean, Backward, OptimizerStep]
     @ (case post_batch_callback of None \<Rightarrow> [] | Some cb \<Rightarrow> [PostBatchCallback])"

subsection \<open>test\<close>

text \<open>
  \<^verbatim>\<open>
  def test(model, loader, criterion):
      model.eval()
      loss = 0
      total_correct = 0
      with torch.no_grad():
          for data, target in tqdm(loader, leave=False):
              data, target = data.to(device), target.to(device)
              output = model(data)
              loss += criterion(output, target, reduction='sum').item()
              pred = output.argmax(dim=1, keepdim=True)
              total_correct += pred.eq(target.view_as(pred)).sum().item()
      return {"accuracy": total_correct / len(loader.dataset),
              "loss": loss / len(loader.dataset),
              "total_correct": total_correct}
  \<close>
\<close>

datatype py_value = PyInt int | PyFloat real

type_synonym py_dict = "string \<rightharpoonup> py_value"

text \<open>
  \<^verbatim>\<open>pred.eq(target.view_as(pred)).sum().item()\<close>: the number of positions at which
  prediction and label agree. \<^verbatim>\<open>view_as\<close> raises when the two do not have the same
  number of entries.
\<close>

definition eq_sum :: "nat list \<Rightarrow> nat list \<Rightarrow> py_error + int" where
  "eq_sum pred target =
     (if length pred = length target
      then Inr (int (length (filter (\<lambda>(p, t). p = t) (zip pred target))))
      else Inl RuntimeError)"

fun test_loop ::
  "('w, 'd, 'o, 'l) torch \<Rightarrow> ('w, 'd, 'o) nn_module \<Rightarrow> ('o, 'l) criterion
     \<Rightarrow> ('d \<times> nat list) list \<Rightarrow> real \<times> int \<Rightarrow> 'w run_state
     \<Rightarrow> (py_error + real \<times> int) \<times> 'w run_state" where
  "test_loop T model criterion [] acc s = (Inr acc, s)"
| "test_loop T model criterion ((data, target) # rest) (loss, total_correct) s =
     (let output = fst (call model data (world s));
          s1 = effect Forward (\<lambda>w. snd (call model data w)) s;
          loss' = loss + item T (criterion output target Sum);
          s2 = effect (Criterion Sum) (\<lambda>w. w) s1;
          pred = argmax_dim1 T output
      in case eq_sum pred target of
           Inl e \<Rightarrow> (Inl e, s2)
         | Inr c \<Rightarrow> test_loop T model criterion rest (loss', total_correct + c) s2)"

text \<open>
  The dictionary is built after the \<^verbatim>\<open>with\<close> block, which is left on a normal end
  and on an exception alike. Both quotients are true divisions: they give floats and
  raise on a zero divisor. The losses and the two quotients are kept as real numbers:
  the rounding of the sum and of the quotients is left out.
\<close>

definition test ::
  "('w, 'd, 'o, 'l) torch \<Rightarrow> ('w, 'd, 'o) nn_module \<Rightarrow> loader \<Rightarrow> ('o, 'l) criterion
     \<Rightarrow> 'w run_state \<Rightarrow> (py_error + py_dict) \<times> 'w run_state" where
  "test T model loader criterion s =
     (let s1 = effect ModelEval (eval_mode model) s;
          s2 = effect NoGradEnter (no_grad_enter T) s1;
          batches = fst (iterate T loader (world s2));
          s3 = effect (Iterate loader) (\<lambda>w. snd (iterate T loader w)) s2;
          r = test_loop T model criterion batches (0, 0) s3;
          s4 = effect NoGradExit (no_grad_exit T) (snd r);
          n = dataset_len T (dataset loader)
      in case fst r of
           Inl e \<Rightarrow> (Inl e, s4)
         | Inr (loss, total_correct) \<Rightarrow>
             if n = 0 then (Inl ZeroDivisionError, s4)
             else (Inr [''accuracy'' \<mapsto> PyFloat (real_of_int total_correct / real n),
                        ''loss'' \<mapsto> PyFloat (loss / real n),
                        ''total_correct'' \<mapsto> PyInt total_correct],
                   s4))"

text \<open>
  The predictions and labels, and the summed batch losses, that one evaluation pass over
  the batches meets, in order.
\<close>

fun eval_pass ::
  "('w, 'd, 'o, 'l) torch \<Rightarrow> ('w, 'd, 'o) nn_module \<Rightarrow> ('o, 'l) criterion
     \<Rightarrow> ('d \<times> nat list) list \<Rightarrow> 'w \<Rightarrow> (nat list \<times> nat list \<times> real) list" where
  "eval_pass T model criterion [] w = []"
| "eval_pass T model criterion ((data, target) # rest) w =
     (let r = call model data w
      in (argmax_dim1 T (fst r), target, item T (criterion (fst r) target Sum))
         # eval_pass T model criterion rest (snd r))"

text \<open>The number of samples whose predicted class is the label.\<close>

definition samples_correct :: "nat list \<Rightarrow> nat list \<Rightarrow> nat" where
  "samples_correct preds labels =
     card (set (filter (\<lambda>i. preds ! i = labels ! i) [0..<length labels]))"

text \<open>
  The batches that the loop of \<open>test\<close> receives when started in state \<open>s\<close>, and what
  the pass over them meets: the loader is iterated after \<^verbatim>\<open>model.eval()\<close> and after
  \<^verbatim>\<open>torch.no_grad()\<close> is entered.
\<close>

definition test_batches ::
  "('w, 'd, 'o, 'l) torch \<Rightarrow> ('w, 'd, 'o) nn_module \<Rightarrow> loader \<Rightarrow> 'w run_state
     \<Rightarrow> ('d \<times> nat list) list" where
  "test_batches T model loader s =
     fst (iterate T loader (no_grad_enter T (eval_mode model (world s))))"

definition test_pass ::
  "('w, 'd, 'o, 'l) torch \<Rightarrow> ('w, 'd, 'o) nn_module \<Rightarrow> loader \<Rightarrow> ('o, 'l) criterion
     \<Rightarrow> 'w run_state \<Rightarrow> (nat list \<times> nat list \<times> real) list" where
  "test_pass T model loader criterion s =
     eval_pass T model criterion (test_batches T model loader s)
       (snd (iterate T loader (no_grad_enter T (eval_mode model (world s)))))"

text \<open>
  A pass is well shaped when the model gave one prediction per label in every batch, so
  that no \<^verbatim>\<open>view_as\<close> raises. The predictions, the labels and the summed loss of a
  whole pass follow.
\<close>

definition well_shaped :: "(nat list \<times> nat list \<times> real) list \<Rightarrow> bool" where
  "well_shaped E = list_all (\<lambda>(pred, target, l). length pred = length target) E"

definition all_predictions :: "(nat list \<times> nat list \<times> real) list \<Rightarrow> nat list" where
  "all_predictions E = concat (map fst E)"

definition all_labels :: "(nat list \<times> nat list \<times> real) list \<Rightarrow> nat list" where
  "all_labels E = concat (map (\<lambda>e. fst (snd e)) E)"

definition summed_loss :: "(nat list \<times> nat list \<times> real) list \<Rightarrow> real" where
  "summed_loss E = sum_list (map (\<lambda>e. snd (snd e)) E)"

text \<open>The calls made between two states of one run.\<close>

definition new_events :: "'w run_state \<Rightarrow> 'w run_state \<Rightarrow> event list" where
  "new_events s s' = drop (length (trace s)) (trace s')"

section \<open>The notebook's script\<close>

subsection \<open>Parameters and data\<close>

definition EPOCHS :: nat where "EPOCHS = 10"
definition FIRST_EPOCH_BATCH_SIZE :: nat where "FIRST_EPOCH_BATCH_SIZE = 4"
definition TRAIN_BATCH_SIZE :: nat where "TRAIN_BATCH_SIZE = 64"
definition TEST_BATCH_SIZE :: nat where "TEST_BATCH_SIZE = 1000"

definition NOISE_LEVELS :: "real list" where
  "NOISE_LEVELS = [5 / 100, 10 / 100, 15 / 100, 20 / 100, 25 / 100]"

text \<open>
  \<^verbatim>\<open>
  normalize = transforms.Compose([transforms.ToTensor(),
                                  transforms.Normalize((0.1307,), (0.3081,))])
  train_dataset = datasets.MNIST('data', train=True, download=True, transform=normalize)
  test_dataset = datasets.MNIST('data', train=False, transform=normalize)
  train_loader = DataLoader(train_dataset, batch_size=TRAIN_BATCH_SIZE, shuffle=True)
  test_loader = DataLoader(test_dataset, batch_size=TEST_BATCH_SIZE, shuffle=True)
  first_loader = DataLoader(train_dataset, batch_size=FIRST_EPOCH_BATCH_SIZE, shuffle=True)
  \<close>
\<close>

definition normalize :: "transform list" where
  "normalize = [ToTensor, Normalize (1307 / 10000) (3081 / 10000)]"

definition train_dataset :: dataset where
  "train_dataset = \<lparr>root = ''data'', train_split = True, transforms = normalize\<rparr>"

definition test_dataset :: dataset where
  "test_dataset = \<lparr>root = ''data'', train_split = False, transforms = normalize\<rparr>"

definition train_loader :: loader where
  "train_loader = \<lparr>dataset = train_dataset, batch_size = TRAIN_BATCH_SIZE, shuffle = True\<rparr>"

definition test_loader :: loader where
  "test_loader = \<lparr>dataset = test_dataset, batch_size = TEST_BATCH_SIZE, shuffle = True\<rparr>"

definition first_loader :: loader where
  "first_loader =
     \<lparr>dataset = train_dataset, batch_size = FIRST_EPOCH_BATCH_SIZE, shuffle = True\<rparr>"

text \<open>
  \<^verbatim>\<open>
  noise_transform = transforms.Compose([transforms.ToTensor(), RandomNoise(noise),
                                        transforms.Normalize((0.1307,), (0.3081,))])
  noise_dataset = datasets.MNIST('data', train=False, transform=noise_transform)
  noise_loader = DataLoader(noise_dataset, batch_size=TEST_BATCH_SIZE, shuffle=True)
  \<close>
  The noise level handed to the transform is the float that the decimal literal of
  \<^verbatim>\<open>NOISE_LEVELS\<close> denotes.
\<close>

definition noise_transform :: "real \<Rightarrow> transform list" where
  "noise_transform noise =
     [ToTensor, Noise (RandomNoise_init (float64 noise) (white_value RandomNoise_default)),
      Normalize (1307 / 10000) (3081 / 10000)]"

definition noise_dataset :: "real \<Rightarrow> dataset" where
  "noise_dataset noise =
     \<lparr>root = ''data'', train_split = False, transforms = noise_transform noise\<rparr>"

definition noise_loader :: "real \<Rightarrow> loader" where
  "noise_loader noise =
     \<lparr>dataset = noise_dataset noise, batch_size = TEST_BATCH_SIZE, shuffle = True\<rparr>"

subsection \<open>The sparse layers\<close>

text \<open>
  Modelled from the spec: the sparse-weights layers \<^verbatim>\<open>SparseWeights\<close> and
  \<^verbatim>\<open>SparseWeights2d\<close> of \<^verbatim>\<open>nupic.torch.modules\<close>, whose code is not among the
  sources. The spec calls sparse weights a weight matrix or kernel with a fixed fraction
  of entries held at zero throughout training. A sparse layer is its weight tensor (flat)
  and its sparsity mask, the positions of the entries that were zeroed.
\<close>

record sparse_layer =
  weight :: "real list"
  zero_mask :: "nat list"

text \<open>
  Modelled from the spec: the modules of the model that \<^verbatim>\<open>nupic.torch.modules\<close>
  provides, whose code is not among the sources. The model is a sequence of modules;
  those that are neither sparse layers nor k-winners activations carry only their name.
  The bookkeeping of a k-winners activation (duty cycles, boost strength) is the type
  \<open>'k\<close>, which the spec leaves to the external module.
\<close>

datatype 'k layer =
    SparseWeights2d sparse_layer
  | SparseWeights sparse_layer
  | KWinners2d 'k
  | KWinners 'k
  | OtherModule string

text \<open>
  The framework state of the script: the model's modules in order, and everything else
  (the other tensors, the optimizer's buffers, the generators).
\<close>

record ('k, 'x) cnn_world =
  layers :: "'k layer list"
  rest :: 'x

text \<open>
  Modelled from the spec: \<^verbatim>\<open>rezero_weights\<close> of \<^verbatim>\<open>nupic.torch.modules\<close>, whose code
  is not among the sources. The spec says it re-enforces a sparsity mask by zeroing
  previously-zeroed weights: on a sparse layer every entry at a position of the mask is
  set to zero (positions outside the tensor do not exist and are skipped); any other
  module is left as it is.
\<close>

definition rezero :: "sparse_layer \<Rightarrow> sparse_layer" where
  "rezero l = l\<lparr>weight := fold (\<lambda>i w. w[i := 0]) (zero_mask l) (weight l)\<rparr>"

fun rezero_weights :: "'k layer \<Rightarrow> 'k layer" where
  "rezero_weights (SparseWeights2d l) = SparseWeights2d (rezero l)"
| "rezero_weights (SparseWeights l) = SparseWeights (rezero l)"
| "rezero_weights m = m"

text \<open>
  Modelled from the spec: \<^verbatim>\<open>update_boost_strength\<close> of \<^verbatim>\<open>nupic.torch.modules\<close>,
  whose code is not among the sources. The spec says only that boost strength is
  bookkeeping of the k-winners activation, defined externally: on a k-winners module
  the bookkeeping is updated by the parameter \<open>boost\<close>; any other module is left as it
  is.
\<close>

fun update_boost_strength :: "('k \<Rightarrow> 'k) \<Rightarrow> 'k layer \<Rightarrow> 'k layer" where
  "update_boost_strength boost (KWinners2d k) = KWinners2d (boost k)"
| "update_boost_strength boost (KWinners k) = KWinners (boost k)"
| "update_boost_strength boost m = m"

text \<open>\<^verbatim>\<open>model.apply(fn)\<close> calls \<open>fn\<close> on every module of the model.\<close>

definition module_apply ::
  "('k layer \<Rightarrow> 'k layer) \<Rightarrow> ('k, 'x) cnn_world \<Rightarrow> ('k, 'x) cnn_world" where
  "module_apply fn w = w\<lparr>layers := map fn (layers w)\<rparr>"

text \<open>
  \<^verbatim>\<open>
  def post_batch(model):
      model.apply(rezero_weights)
  \<close>
\<close>

definition post_batch :: "('k, 'x) cnn_world \<Rightarrow> ('k, 'x) cnn_world" where
  "post_batch model = module_apply rezero_weights model"

text \<open>
  What is observed of the sparse layers: the sparse layers of the model in order, the
  mask and the size of each, and whether every masked entry of every sparse layer is
  zero.
\<close>

fun sparse_of :: "'k layer \<Rightarrow> sparse_layer option" where
  "sparse_of (SparseWeights2d l) = Some l"
| "sparse_of (SparseWeights l) = Some l"
| "sparse_of m = None"

definition sparse_layers :: "('k, 'x) cnn_world \<Rightarrow> sparse_layer list" where
  "sparse_layers w = List.map_filter sparse_of (layers w)"

definition sparsity :: "('k, 'x) cnn_world \<Rightarrow> (nat list \<times> nat) list" where
  "sparsity w = map (\<lambda>l. (zero_mask l, length (weight l))) (sparse_layers w)"

definition masked_zero :: "sparse_layer \<Rightarrow> bool" where
  "masked_zero l =
     list_all (\<lambda>i. weight l ! i = 0) (filter (\<lambda>i. i < length (weight l)) (zero_mask l))"

definition sparsity_held :: "('k, 'x) cnn_world \<Rightarrow> bool" where
  "sparsity_held w = list_all masked_zero (sparse_layers w)"

subsection \<open>The cells, in order\<close>

text \<open>
  The objects the script builds from the framework: the model \<^verbatim>\<open>sparse_cnn\<close>, the
  optimizer \<^verbatim>\<open>sgd\<close>, the loss \<^verbatim>\<open>F.nll_loss\<close>, the framework operations, and the
  update of the k-winners bookkeeping.
\<close>

record ('k, 'x, 'd, 'o, 'l) notebook =
  nb_torch :: "(('k, 'x) cnn_world, 'd, 'o, 'l) torch"
  sparse_cnn :: "(('k, 'x) cnn_world, 'd, 'o) nn_module"
  sgd :: "('k, 'x) cnn_world optimizer"
  nll_loss :: "('o, 'l) criterion"
  boost :: "'k \<Rightarrow> 'k"

text \<open>
  \<^verbatim>\<open>
  for epoch in range(1, EPOCHS):
      train(model=sparse_cnn, loader=train_loader, optimizer=sgd, criterion=F.nll_loss,
            post_batch_callback=post_batch)
      sparse_cnn.apply(update_boost_strength)
      results = test(model=sparse_cnn, loader=test_loader, criterion=F.nll_loss)
      print(results)
  \<close>
  An exception of \<open>test\<close> ends the script; the result is the exception, if any, and the
  state reached.
\<close>

fun epoch_loop ::
  "('k, 'x, 'd, 'o, 'l) notebook \<Rightarrow> nat list \<Rightarrow> ('k, 'x) cnn_world run_state
     \<Rightarrow> py_error option \<times> ('k, 'x) cnn_world run_state" where
  "epoch_loop N [] s = (None, s)"
| "epoch_loop N (epoch # later) s =
     (let s1 = train (nb_torch N) (sparse_cnn N) train_loader (sgd N) (nll_loss N)
                 (Some post_batch) s;
          s2 = effect UpdateBoostStrength
                 (module_apply (update_boost_strength (boost N))) s1;
          r = test (nb_torch N) (sparse_cnn N) test_loader (nll_loss N) s2
      in case fst r of
           Inl e \<Rightarrow> (Some e, snd r)
         | Inr results \<Rightarrow> epoch_loop N later (effect Print (\<lambda>w. w) (snd r)))"

text \<open>
  \<^verbatim>\<open>
  for noise in NOISE_LEVELS:
      ... noise_loader = DataLoader(noise_dataset, ...)
      results = test(model=sparse_cnn, loader=noise_loader, criterion=F.nll_loss)
      print(noise, ":", results)
  \<close>
\<close>

fun noise_loop ::
  "('k, 'x, 'd, 'o, 'l) notebook \<Rightarrow> real list \<Rightarrow> ('k, 'x) cnn_world run_state
     \<Rightarrow> py_error option \<times> ('k, 'x) cnn_world run_state" where
  "noise_loop N [] s = (None, s)"
| "noise_loop N (noise # later) s =
     (let r = test (nb_torch N) (sparse_cnn N) (noise_loader noise) (nll_loss N) s
      in case fst r of
           Inl e \<Rightarrow> (Some e, snd r)
         | Inr results \<Rightarrow> noise_loop N later (effect Print (\<lambda>w. w) (snd r)))"

text \<open>
  The cells after the first evaluation: the loop over the later epochs, then the loop
  over the noise levels.
\<close>

definition later_cells ::
  "('k, 'x, 'd, 'o, 'l) notebook \<Rightarrow> ('k, 'x) cnn_world run_state
     \<Rightarrow> py_error option \<times> ('k, 'x) cnn_world run_state" where
  "later_cells N s =
     (let r = epoch_loop N [1..<EPOCHS] s
      in case fst r of
           Some e \<Rightarrow> (Some e, snd r)
         | None \<Rightarrow> noise_loop N NOISE_LEVELS (snd r))"

text \<open>
  The whole script: the first-epoch pass on \<open>first_loader\<close>, the boost update, an
  evaluation, and the later cells.
  \<^verbatim>\<open>
  train(model=sparse_cnn, loader=first_loader, optimizer=sgd, criterion=F.nll_loss,
        post_batch_callback=post_batch)
  sparse_cnn.apply(update_boost_strength)
  test(model=sparse_cnn, loader=test_loader, criterion=F.nll_loss)
  \<close>
\<close>

definition script ::
  "('k, 'x, 'd, 'o, 'l) notebook \<Rightarrow> ('k, 'x) cnn_world run_state
     \<Rightarrow> py_error option \<times> ('k, 'x) cnn_world run_state" where
  "script N s =
     (let s1 = train (nb_torch N) (sparse_cnn N) first_loader (sgd N) (nll_loss N)
                 (Some post_batch) s;
          s2 = effect UpdateBoostStrength
                 (module_apply (update_boost_strength (boost N))) s1;
          r = test (nb_torch N) (sparse_cnn N) test_loader (nll_loss N) s2
      in case fst r of
           Inl e \<Rightarrow> (Some e, snd r)
         | Inr results \<Rightarrow> later_cells N (snd r))"

text \<open>
  The schedule of a run keeps, of the calls made, the starts of training and evaluation
  passes with the loader each iterates, and the boost updates. The training calls of a
  run are the calls that only \<open>train\<close> makes.
\<close>

fun is_schedule_event :: "event \<Rightarrow> bool" where
  "is_schedule_event ModelTrain = True"
| "is_schedule_event ModelEval = True"
| "is_schedule_event (Iterate l) = True"
| "is_schedule_event UpdateBoostStrength = True"
| "is_schedule_event e = False"

definition schedule :: "event list \<Rightarrow> event list" where
  "schedule evs = filter is_schedule_event evs"

fun is_training_event :: "event \<Rightarrow> bool" where
  "is_training_event ZeroGrad = True"
| "is_training_event Backward = True"
| "is_training_event OptimizerStep = True"
| "is_training_event PostBatchCallback = True"
| "is_training_event e = False"

definition training_calls :: "event list \<Rightarrow> event list" where
  "training_calls evs = filter is_training_event evs"

definition train_pass :: "loader \<Rightarrow> event list" where
  "train_pass l = [ModelTrain, Iterate l, UpdateBoostStrength]"

definition eval_pass_of :: "loader \<Rightarrow> event list" where
  "eval_pass_of l = [ModelEval, Iterate l]"

text \<open>
  The schedule of a complete run, and its end: the evaluations after the last training
  pass.
\<close>

definition script_schedule :: "event list" where
  "script_schedule =
     train_pass first_loader @ eval_pass_of test_loader
     @ concat (replicate (EPOCHS - 1) (train_pass train_loader @ eval_pass_of test_loader))
     @ concat (map (\<lambda>noise. eval_pass_of (noise_loader noise)) NOISE_LEVELS)"

definition final_evaluation :: "event list" where
  "final_evaluation =
     eval_pass_of test_loader
     @ concat (map (\<lambda>noise. eval_pass_of (noise_loader noise)) NOISE_LEVELS)"

text \<open>
  The framework keeps an observation of its state when none of the operations the script
  calls on the model, the optimizer and the framework writes it.
\<close>

definition framework_keeps ::
  "(('k, 'x) cnn_world \<Rightarrow> 'a) \<Rightarrow> ('k, 'x, 'd, 'o, 'l) notebook \<Rightarrow> bool" where
  "framework_keeps obs N \<longleftrightarrow>
     (\<forall>w. obs (train_mode (sparse_cnn N) w) = obs w)
   \<and> (\<forall>w. obs (eval_mode (sparse_cnn N) w) = obs w)
   \<and> (\<forall>d w. obs (snd (call (sparse_cnn N) d w)) = obs w)
   \<and> (\<forall>w. obs (zero_grad (sgd N) w) = obs w)
   \<and> (\<forall>w. obs (step (sgd N) w) = obs w)
   \<and> (\<forall>l w. obs (backward (nb_torch N) l w) = obs w)
   \<and> (\<forall>w. obs (no_grad_enter (nb_torch N) w) = obs w)
   \<and> (\<forall>w. obs (no_grad_exit (nb_torch N) w) = obs w)
   \<and> (\<forall>ld w. obs (snd (iterate (nb_torch N) ld w)) = obs w)"

text \<open>
  The operations that the script calls outside the gradient step (switching the model
  to training or evaluation mode, the forward pass, entering and leaving
  \<^verbatim>\<open>torch.no_grad()\<close>, loading data) preserve a property \<open>P\<close> of the framework state
  when each of them leads from a state with \<open>P\<close> to a state with \<open>P\<close>. Nothing is asked of
  \<^verbatim>\<open>zero_grad\<close>, \<^verbatim>\<open>backward\<close> and the optimizer step.
\<close>

definition evaluation_preserves ::
  "(('k, 'x) cnn_world \<Rightarrow> bool) \<Rightarrow> ('k, 'x, 'd, 'o, 'l) notebook \<Rightarrow> bool" where
  "evaluation_preserves P N \<longleftrightarrow>
     (\<forall>w. P w \<longrightarrow> P (train_mode (sparse_cnn N) w))
   \<and> (\<forall>w. P w \<longrightarrow> P (eval_mode (sparse_cnn N) w))
   \<and> (\<forall>d w. P w \<longrightarrow> P (snd (call (sparse_cnn N) d w)))
   \<and> (\<forall>w. P w \<longrightarrow> P (no_grad_enter (nb_torch N) w))
   \<and> (\<forall>w. P w \<longrightarrow> P (no_grad_exit (nb_torch N) w))
   \<and> (\<forall>ld w. P w \<longrightarrow> P (snd (iterate (nb_torch N) ld w)))"

text \<open>
  The zero entries of a sparse layer, counted in its weight tensor; the fraction they
  make of all entries; and the number of entries under the mask.
\<close>

definition zero_entries :: "sparse_layer \<Rightarrow> nat" where
  "zero_entries l = length (filter (\<lambda>x. x = 0) (weight l))"

definition zero_fraction :: "sparse_layer \<Rightarrow> real" where
  "zero_fraction l = real (zero_entries l) / real (length (weight l))"

definition masked_entries :: "sparse_layer \<Rightarrow> nat" where
  "masked_entries l =
     length (remdups (filter (\<lambda>i. i < length (weight l)) (zero_mask l)))"

subsection \<open>A small instance of the framework\<close>

text \<open>
  An instance on which the definitions can be run. Inputs are integers, the model has
  one sparse layer, one k-winners activation and a threshold; it predicts class 1 for
  an input at or above the threshold and counts its forward passes. The optimizer adds
  one to every sparse weight and lowers the threshold by one. The loss counts wrong
  predictions. A loader yields the given batches and its dataset has the given size.
\<close>

type_synonym toy_world = "(real, int \<times> nat) cnn_world"

definition toy_model :: "(toy_world, int list, nat list) nn_module" where
  "toy_model =
     \<lparr>train_mode = (\<lambda>w. w),
      eval_mode = (\<lambda>w. w),
      call = (\<lambda>data w. (map (\<lambda>x. if fst (rest w) \<le> x then 1 else 0) data,
                          w\<lparr>rest := (fst (rest w), Suc (snd (rest w)))\<rparr>))\<rparr>"

fun toy_step_layer :: "real layer \<Rightarrow> real layer" where
  "toy_step_layer (SparseWeights2d l) =
     SparseWeights2d (l\<lparr>weight := map (\<lambda>x. x + 1) (weight l)\<rparr>)"
| "toy_step_layer (SparseWeights l) =
     SparseWeights (l\<lparr>weight := map (\<lambda>x. x + 1) (weight l)\<rparr>)"
| "toy_step_layer m = m"

definition toy_sgd :: "toy_world optimizer" where
  "toy_sgd =
     \<lparr>zero_grad = (\<lambda>w. w),
      step = (\<lambda>w. w\<lparr>layers := map toy_step_layer (layers w),
                       rest := (fst (rest w) - 1, snd (rest w))\<rparr>)\<rparr>"

definition toy_loss :: "(nat list, real) criterion" where
  "toy_loss output target red =
     (case red of
        Sum \<Rightarrow> real (length (filter (\<lambda>(p, t). p \<noteq> t) (zip output target)))
      | Mean \<Rightarrow> real (length (filter (\<lambda>(p, t). p \<noteq> t) (zip output target)))
                  / real (length target))"

definition toy_torch ::
  "(int list \<times> nat list) list \<Rightarrow> nat \<Rightarrow> (toy_world, int list, nat list, real) torch" where
  "toy_torch batches n =
     \<lparr>backward = (\<lambda>l w. w),
      item = (\<lambda>l. l),
      argmax_dim1 = (\<lambda>out. out),
      no_grad_enter = (\<lambda>w. w),
      no_grad_exit = (\<lambda>w. w),
      iterate = (\<lambda>ld w. (batches, w)),
      dataset_len = (\<lambda>ds. n)\<rparr>"

definition toy_batches :: "(int list \<times> nat list) list" where
  "toy_batches = [([1, 2], [1, 0]), ([0], [1])]"

definition toy_state :: "toy_world run_state" where
  "toy_state =
     \<lparr>world = \<lparr>layers = [SparseWeights \<lparr>weight = [1 / 2, 0, 3], zero_mask = [1]\<rparr>,
                         KWinners (14 / 10), OtherModule ''Linear''],
               rest = (1, 0)\<rparr>,
      trace = []\<rparr>"

definition toy_notebook ::
  "(int list \<times> nat list) list \<Rightarrow> nat \<Rightarrow> (real, int \<times> nat, int list, nat list, real) notebook" where
  "toy_notebook batches n =
     \<lparr>nb_torch = toy_torch batches n,
      sparse_cnn = toy_model,
      sgd = toy_sgd,
      nll_loss = toy_loss,
      boost = (\<lambda>b. b * (9 / 10))\<rparr>"

text \<open>What counts as the model's parameters in the instance: its layers and its threshold.\<close>

definition toy_parameters :: "toy_world \<Rightarrow> real layer list \<times> int" where
  "toy_parameters w = (layers w, fst (rest w))"

text \<open>
  Further inputs of the instance: a loader that yields six labels, all of which the
  model predicts; a state whose sparse layer has a zero entry outside its mask; and a
  state whose sparse layer has a masked entry that is not zero.
\<close>

definition over_batches :: "(int list \<times> nat list) list" where
  "over_batches = [([1, 2], [1, 1]), ([1, 2], [1, 1]), ([0, 0], [0, 0])]"

definition zero_state :: "toy_world run_state" where
  "zero_state =
     \<lparr>world = \<lparr>layers = [SparseWeights \<lparr>weight = [0, 0, 3], zero_mask = [1]\<rparr>],
               rest = (1, 0)\<rparr>,
      trace = []\<rparr>"

definition unheld_state :: "toy_world run_state" where
  "unheld_state =
     \<lparr>world = \<lparr>layers = [SparseWeights \<lparr>weight = [5, 7], zero_mask = [0]\<rparr>],
               rest = (1, 0)\<rparr>,
      trace = []\<rparr>"

section \<open>Properties of the noise transform\<close>

subsection \<open>Auxiliary facts about lists\<close>

lemma length_fold_update [simp]:
  "length (fold (\<lambda>i b. b[i := v]) idx a) = length a"
  by (induction idx arbitrary: a) auto

lemma nth_fold_update:
  "j < length a \<Longrightarrow>
   fold (\<lambda>i b. b[i := v]) idx a ! j = (if j \<in> set idx then v else a ! j)"
proof (induction idx arbitrary: a)
  case Nil
  then show ?case by simp
next
  case (Cons i idx)
  then show ?case by (cases "i = j") (auto simp: nth_list_update)
qed

lemma slice_upto_perm:
  assumes "is_permutation_of_range p n"
  shows "distinct (slice_upto p k)" "\<forall>i \<in> set (slice_upto p k). i < n"
proof -
  have d: "distinct p" and b: "\<forall>i\<in>set p. i < n"
    using assms by (auto simp: is_permutation_of_range_def list_all_iff)
  show "distinct (slice_upto p k)" using d by (simp add: slice_upto_def)
  show "\<forall>i \<in> set (slice_upto p k). i < n"
    using b by (auto simp: slice_upto_def dest: in_set_takeD)
qed

lemma length_slice_upto:
  "0 \<le> k \<Longrightarrow> length (slice_upto p k) = min (nat k) (length p)"
  by (simp add: slice_upto_def min_def)

subsection \<open>Auxiliary facts about rounding\<close>

lemma pow2_pos [simp]: "0 < pow2 e"
  by (simp add: pow2_def)

lemma binary_exponent_le:
  "x < 2 ^ Suc k \<Longrightarrow> binary_exponent n x \<le> int k"
proof (induction n arbitrary: x k)
  case 0
  then show ?case by simp
next
  case (Suc n)
  show ?case
  proof (cases "2 \<le> x")
    case True
    then have "k \<noteq> 0" using Suc.prems by (cases k) auto
    then obtain k' where k: "k = Suc k'" by (cases k) auto
    have "x / 2 < 2 ^ Suc k'" using Suc.prems by (simp add: k)
    from Suc.IH[OF this] show ?thesis using True by (simp add: k)
  next
    case False
    show ?thesis
    proof (cases "x < 1")
      case True
      then have "2 * x < 2 ^ Suc 0" by simp
      from Suc.IH[OF this] show ?thesis using True False by simp
    next
      case False
      then show ?thesis using \<open>\<not> 2 \<le> x\<close> by simp
    qed
  qed
qed

lemma binary_exponent_numeral:
  "binary_exponent (numeral k) x =
     (if 2 \<le> x then binary_exponent (pred_numeral k) (x / 2) + 1
      else if x < 1 then binary_exponent (pred_numeral k) (2 * x) - 1
      else 0)"
  by (simp add: numeral_eq_Suc)

lemma round_half_even_bounds: "\<lfloor>q\<rfloor> \<le> round_half_even q" "round_half_even q \<le> \<lceil>q\<rceil>"
proof -
  show "\<lfloor>q\<rfloor> \<le> round_half_even q" by (simp add: round_half_even_def Let_def)
  show "round_half_even q \<le> \<lceil>q\<rceil>"
  proof (cases "q = of_int \<lfloor>q\<rfloor>")
    case True
    then have "q - of_int \<lfloor>q\<rfloor> = 0" by simp
    then have "round_half_even q = \<lfloor>q\<rfloor>" by (simp add: round_half_even_def Let_def)
    then show ?thesis by (simp add: floor_le_ceiling)
  next
    case False
    then have "\<lceil>q\<rceil> = \<lfloor>q\<rfloor> + 1" by (simp add: ceiling_altdef)
    then show ?thesis by (simp add: round_half_even_def Let_def)
  qed
qed

lemma round_half_even_ge: "of_int a \<le> q \<Longrightarrow> a \<le> round_half_even q"
proof -
  assume "of_int a \<le> q"
  then have "a \<le> \<lfloor>q\<rfloor>" by (simp add: le_floor_iff)
  then show ?thesis using round_half_even_bounds(1)[of q] by linarith
qed

lemma round_half_even_le: "q \<le> of_int b \<Longrightarrow> round_half_even q \<le> b"
proof -
  assume "q \<le> of_int b"
  then have "\<lceil>q\<rceil> \<le> b" by (simp add: ceiling_le_iff)
  then show ?thesis using round_half_even_bounds(2)[of q] by linarith
qed

lemma round_to_grid_nonneg: "0 \<le> x \<Longrightarrow> 0 \<le> round_to_grid e x"
proof -
  assume "0 \<le> x"
  moreover have "0 \<le> pow2 e" using pow2_pos[of e] by linarith
  ultimately have "of_int 0 \<le> x / pow2 e" by simp
  then have "0 \<le> round_half_even (x / pow2 e)" by (rule round_half_even_ge)
  then have "0 \<le> real_of_int (round_half_even (x / pow2 e))" by simp
  then show ?thesis
    using \<open>0 \<le> pow2 e\<close> unfolding round_to_grid_def by (rule mult_nonneg_nonneg)
qed


text \<open>
  A real of magnitude below \<open>2^53\<close> rounds to a float between the integers next to it:
  every integer of that range is a float.
\<close>

lemma float64_between:
  assumes "\<bar>x\<bar> < 2 ^ 53"
  shows "\<exists>y. float64 x = Finite y \<and> of_int \<lfloor>x\<rfloor> \<le> y \<and> y \<le> of_int \<lceil>x\<rceil>"
proof (cases "x = 0")
  case True
  then show ?thesis by (simp add: float64_def float_round_def)
next
  case False
  define e where "e = ulp_exponent 53 (- 1074) x"
  define m where "m = nat (- e)"
  define y where "y = round_to_grid e x"
  have "binary_exponent 2200 \<bar>x\<bar> \<le> int 52"
    using assms by (intro binary_exponent_le) simp
  then have e0: "e \<le> 0" by (simp add: e_def ulp_exponent_def)
  then have p: "pow2 e = 1 / 2 ^ m"
    by (cases "e = 0") (simp_all add: pow2_def m_def)
  have yq: "y = of_int (round_half_even (x * 2 ^ m)) / 2 ^ m"
    by (simp add: y_def round_to_grid_def p)
  have lo: "of_int (\<lfloor>x\<rfloor> * 2 ^ m) \<le> x * 2 ^ m"
    by simp
  have hi: "x * 2 ^ m \<le> of_int (\<lceil>x\<rceil> * 2 ^ m)"
    by simp
  have ylo: "of_int \<lfloor>x\<rfloor> \<le> y"
  proof -
    have "\<lfloor>x\<rfloor> * 2 ^ m \<le> round_half_even (x * 2 ^ m)"
      using lo by (rule round_half_even_ge)
    then have "real_of_int (\<lfloor>x\<rfloor> * 2 ^ m) \<le> real_of_int (round_half_even (x * 2 ^ m))"
      using of_int_le_iff by blast
    then show ?thesis by (simp add: yq field_simps)
  qed
  have yhi: "y \<le> of_int \<lceil>x\<rceil>"
  proof -
    have "round_half_even (x * 2 ^ m) \<le> \<lceil>x\<rceil> * 2 ^ m"
      using hi by (rule round_half_even_le)
    then have "real_of_int (round_half_even (x * 2 ^ m)) \<le> real_of_int (\<lceil>x\<rceil> * 2 ^ m)"
      using of_int_le_iff by blast
    then show ?thesis by (simp add: yq field_simps)
  qed
  have fb: "- (2 ^ 53) \<le> \<lfloor>x\<rfloor>" "\<lceil>x\<rceil> \<le> 2 ^ 53"
    using assms by (auto simp: le_floor_iff ceiling_le_iff abs_less_iff)
  have "\<bar>y\<bar> \<le> 2 ^ 53"
  proof -
    have c: "real_of_int (2 ^ 53) = 2 ^ 53" by simp
    have "real_of_int (- (2 ^ 53)) \<le> real_of_int \<lfloor>x\<rfloor>"
      using fb(1) of_int_le_iff by blast
    then have "- (2 ^ 53) \<le> y" using ylo c by linarith
    moreover have "real_of_int \<lceil>x\<rceil> \<le> real_of_int (2 ^ 53)"
      using fb(2) of_int_le_iff by blast
    then have "y \<le> 2 ^ 53" using yhi c by linarith
    ultimately show ?thesis by (simp only: abs_le_iff) simp
  qed
  moreover have "(2::real) ^ 53 < pow2 1024"
    by (simp add: pow2_def)
  ultimately have "\<not> pow2 1024 \<le> \<bar>y\<bar>" by linarith
  then have "overflow_check 1024 y = Finite y"
    by (simp add: overflow_check_def)
  then have "float64 x = Finite y"
    using False by (simp add: float64_def float_round_def e_def y_def)
  then show ?thesis using ylo yhi by blast
qed

lemma float64_of_int:
  assumes "\<bar>real_of_int n\<bar> < 2 ^ 53"
  shows "float64 (of_int n) = Finite (of_int n)"
  using float64_between[OF assms] by auto

lemma int_to_float_small: "n < 2 ^ 53 \<Longrightarrow> int_to_float n = Inr (real n)"
proof -
  assume "n < 2 ^ 53"
  then have "\<bar>real_of_int (int n)\<bar> < 2 ^ 53"
    by (simp add: of_nat_less_numeral_power_cancel_iff)
  from float64_of_int[OF this] show ?thesis by (simp add: int_to_float_def)
qed


text \<open>
  A real from 0 to the float next below 1 rounds to a float from 0 to that float.
\<close>

lemma float64_below_one:
  assumes "0 \<le> x" "x \<le> 1 - 1 / 2 ^ 53"
  shows "\<exists>y. float64 x = Finite y \<and> 0 \<le> y \<and> y < 1"
proof (cases "x = 0")
  case True
  then show ?thesis by (simp add: float64_def float_round_def)
next
  case False
  define e where "e = ulp_exponent 53 (- 1074) x"
  define m where "m = nat (- e)"
  define y where "y = round_to_grid e x"
  have x1: "x < 1" using assms(2) by simp
  have "2 * x < 2 ^ Suc 0" using x1 by simp
  then have "binary_exponent 2199 (2 * x) \<le> int 0" by (rule binary_exponent_le)
  moreover have "binary_exponent 2200 x = binary_exponent 2199 (2 * x) - 1"
    using x1 by (simp add: binary_exponent_numeral)
  ultimately have "binary_exponent 2200 \<bar>x\<bar> \<le> - 1" using assms(1) by simp
  then have e53: "e \<le> - 53" by (simp add: e_def ulp_exponent_def)
  then have m53: "53 \<le> m" by (simp add: m_def)
  have p: "pow2 e = 1 / 2 ^ m"
    using e53 by (simp add: pow2_def m_def)
  have yq: "y = of_int (round_half_even (x * 2 ^ m)) / 2 ^ m"
    by (simp add: y_def round_to_grid_def p)
  obtain d where d: "m = 53 + d" using m53 by (auto simp: le_iff_add)
  have "x * 2 ^ m \<le> (1 - 1 / 2 ^ 53) * 2 ^ m"
    using assms(2) by (simp add: mult_right_mono)
  also have "(1 - 1 / 2 ^ 53) * 2 ^ m = real_of_int (2 ^ m - 2 ^ d)"
    by (simp add: d power_add algebra_simps)
  finally have "round_half_even (x * 2 ^ m) \<le> 2 ^ m - 2 ^ d"
    by (rule round_half_even_le)
  then have "round_half_even (x * 2 ^ m) < 2 ^ m"
    by (smt (verit) zero_less_power)
  then have "real_of_int (round_half_even (x * 2 ^ m)) < real_of_int (2 ^ m)"
    using of_int_less_iff by blast
  then have y1: "y < 1" by (simp add: yq field_simps)
  have y0: "0 \<le> y" unfolding y_def using assms(1) by (rule round_to_grid_nonneg)
  have "(1::real) < pow2 1024" by (simp add: pow2_def)
  then have "\<not> pow2 1024 \<le> \<bar>y\<bar>" using y0 y1 by linarith
  then have "overflow_check 1024 y = Finite y"
    by (simp add: overflow_check_def)
  then have "float64 x = Finite y"
    using False by (simp add: float64_def float_round_def e_def y_def)
  then show ?thesis using y0 y1 by blast
qed

lemmas float_eval =
  float64_def float32_def float_round_def ulp_exponent_def round_to_grid_def
  overflow_check_def binary_exponent_numeral pow2_def round_half_even_def Let_def

subsection \<open>The number of noise bits\<close>



text \<open>A product strictly between \<open>-1\<close> and \<open>1\<close> truncates to no noise bit.\<close>

lemma num_noise_bits_zero:
  assumes "noise_product self t = Inr (Finite y)" "- 1 < y" "y < 1"
  shows "num_noise_bits self t = Inr 0"
  using assms by (simp add: num_noise_bits_def floor_eq_iff ceiling_eq_iff)

subsection \<open>The result of a call\<close>

lemma noise_positions_eq:
  assumes "viewable (tensors s img)" "num_noise_bits self (tensors s img) = Inr k"
  shows "noise_positions perm self img s =
           slice_upto (fst (perm (np_rng s) (length (elems (tensors s img))))) k"
  using assms by (simp add: noise_positions_def Let_def)

lemma noise_positions_perm:
  assumes "is_permutation_of_range (fst (perm (np_rng s) (length (elems (tensors s img)))))
             (length (elems (tensors s img)))"
  shows "distinct (noise_positions perm self img s)"
    and "\<forall>i \<in> set (noise_positions perm self img s). i < length (elems (tensors s img))"
  using slice_upto_perm[OF assms]
  by (auto simp: noise_positions_def Let_def split: sum.splits)

lemma noise_positions_length:
  assumes "is_permutation_of_range (fst (perm (np_rng s) (length (elems (tensors s img)))))
             (length (elems (tensors s img)))"
    and "viewable (tensors s img)" and "num_noise_bits self (tensors s img) = Inr k"
    and "0 \<le> k"
  shows "length (noise_positions perm self img s) =
           min (nat k) (length (elems (tensors s img)))"
proof -
  have "length (fst (perm (np_rng s) (length (elems (tensors s img))))) =
          length (elems (tensors s img))"
    using assms(1) by (simp add: is_permutation_of_range_def)
  then show ?thesis
    using length_slice_upto[OF assms(4),
        of "fst (perm (np_rng s) (length (elems (tensors s img))))"]
      noise_positions_eq[where perm = perm, OF assms(2,3)]
    by simp
qed

text \<open>
  When the tensor admits the flat view, the number of noise bits is an integer and the
  drawn ordering is a permutation of the range, the call succeeds.
\<close>

lemma RandomNoise_call_result:
  assumes "is_permutation_of_range (fst (perm (np_rng s) (length (elems (tensors s img)))))
             (length (elems (tensors s img)))"
    and "viewable (tensors s img)" and "num_noise_bits self (tensors s img) = Inr k"
  shows "RandomNoise_call perm self img s =
           (Inr img,
            s\<lparr>np_rng := snd (perm (np_rng s) (length (elems (tensors s img)))),
              tensors := (tensors s)(img := (tensors s img)\<lparr>elems :=
                fold (\<lambda>i b. b[i := store_cast (dtype (tensors s img)) (white_value self)])
                  (noise_positions perm self img s) (elems (tensors s img))\<rparr>)\<rparr>)"
proof -
  have "list_all (\<lambda>i. i < length (elems (tensors s img))) (noise_positions perm self img s)"
    using noise_positions_perm(2)[where perm = perm and s = s and img = img, OF assms(1)]
    by (simp add: list_all_iff)
  then show ?thesis
    using assms(2,3) by (simp add: RandomNoise_call_def index_assign_def Let_def)
qed

lemma RandomNoise_call_raises:
  "\<not> viewable (tensors s img) \<Longrightarrow> RandomNoise_call perm self img s = (Inl RuntimeError, s)"
  "viewable (tensors s img) \<Longrightarrow> num_noise_bits self (tensors s img) = Inl e \<Longrightarrow>
     RandomNoise_call perm self img s = (Inl e, s)"
  by (simp_all add: RandomNoise_call_def Let_def)

subsection \<open>The worked examples\<close>

lemma example_tensors:
  "tensors example_state 0 = example_image"
  "tensors example_state (Suc 0) =
     \<lparr>elems = [Finite 0, Finite 0, Finite 0], dtype = Float64, viewable = True\<rparr>"
  "tensors example_state 2 = example_image\<lparr>viewable := False\<rparr>"
  "tensors example_state 3 =
     \<lparr>elems = [Finite 0, Finite 0], dtype = Float32, viewable = True\<rparr>"
  by (simp_all add: example_state_def)

lemma example_perm_ok:
  "is_permutation_of_range (fst (example_perm g (length (elems (tensors example_state r)))))
     (length (elems (tensors example_state r)))"
  by (simp add: example_perm_def is_permutation_of_range_def list_all_iff)

lemma example_num_noise_bits:
  "num_noise_bits example_noise example_image = Inr 2"
  "num_noise_bits third_noise
     \<lparr>elems = [Finite 0, Finite 0, Finite 0], dtype = Float64, viewable = True\<rparr> = Inr 1"
  "num_noise_bits negative_noise example_image = Inr (- 2)"
  "num_noise_bits nan_noise example_image = Inl ValueError"
  "num_noise_bits full_noise
     \<lparr>elems = [Finite 0, Finite 0], dtype = Float32, viewable = True\<rparr> = Inr 2"
  "num_noise_bits RandomNoise_default example_image = Inr 0"
  by (simp_all add: num_noise_bits_def noise_product_def int_to_float_def example_image_def
      example_noise_def third_noise_def negative_noise_def nan_noise_def full_noise_def
      RandomNoise_default_def RandomNoise_init_def float_eval)

lemma default_white_value_eval:
  "default_white_value = Finite (6727477123366047 / 9007199254740992)"
  by (simp add: default_white_value_def float_add_def float_eval)

lemma example_floats:
  "float64 (3 / 4) = Finite (3 / 4)"
  "float32 (6727477123366047 / 9007199254740992) = Finite (12530903 / 16777216)"
  by (simp_all add: float_eval)

text \<open>
  Two products that round up to an integer: three times the float nearest to \<open>1/3\<close>, and
  784 times the float nearest to \<open>3/784\<close>. The exact products are below 1 and below 3.
\<close>

lemma example_products:
  "float64 (3 * (6004799503160661 / 18014398509481984)) = Finite 1"
  "float64 (784 * (4411689430893547 / 1152921504606846976)) = Finite 3"
  "(3::real) * (6004799503160661 / 18014398509481984) < 1"
  "(784::real) * (4411689430893547 / 1152921504606846976) < 3"
  by (simp_all add: float_eval)

lemma example_noise_positions:
  "noise_positions example_perm example_noise 0 example_state = [3, 2]"
  "noise_positions example_perm third_noise (Suc 0) example_state = [2]"
  "noise_positions example_perm negative_noise 0 example_state = [3, 2]"
  "noise_positions example_perm full_noise 3 example_state = [Suc 0, 0]"
  "noise_positions example_perm RandomNoise_default 0 example_state = []"
  by (simp_all add: noise_positions_def example_tensors example_num_noise_bits Let_def)
     (simp_all add: example_image_def example_perm_def slice_upto_def upt_conv_Cons)

lemma example_call:
  "RandomNoise_call example_perm example_noise 0 example_state =
     (Inr 0, example_state\<lparr>np_rng := 19, tensors := (tensors example_state)
        (0 := example_image\<lparr>elems :=
           [Finite 0, Finite (1 / 4), Finite (3 / 4), Finite (3 / 4)]\<rparr>)\<rparr>)"
  "RandomNoise_call example_perm third_noise (Suc 0) example_state =
     (Inr (Suc 0), example_state\<lparr>np_rng := 19, tensors := (tensors example_state)
        (Suc 0 := \<lparr>elems = [Finite 0, Finite 0, Finite (3 / 4)], dtype = Float64,
                  viewable = True\<rparr>)\<rparr>)"
  "RandomNoise_call example_perm negative_noise 0 example_state =
     (Inr 0, example_state\<lparr>np_rng := 19, tensors := (tensors example_state)
        (0 := example_image\<lparr>elems :=
           [Finite 0, Finite (1 / 4), Finite (3 / 4), Finite (3 / 4)]\<rparr>)\<rparr>)"
  "RandomNoise_call example_perm full_noise 3 example_state =
     (Inr 3, example_state\<lparr>np_rng := 19, tensors := (tensors example_state)
        (3 := \<lparr>elems = [Finite (12530903 / 16777216), Finite (12530903 / 16777216)],
               dtype = Float32, viewable = True\<rparr>)\<rparr>)"
  by (simp_all add: RandomNoise_call_def example_tensors example_num_noise_bits
        example_noise_positions index_assign_def Let_def)
     (simp_all add: example_image_def example_perm_def example_state_def
        example_noise_def third_noise_def negative_noise_def full_noise_def
        RandomNoise_init_def default_white_value_eval example_floats)

lemma example_raises:
  "RandomNoise_call example_perm self 2 example_state = (Inl RuntimeError, example_state)"
  "RandomNoise_call example_perm nan_noise 0 example_state = (Inl ValueError, example_state)"
  by (simp_all add: RandomNoise_call_def example_tensors example_num_noise_bits Let_def)
     (simp_all add: example_image_def)

subsection \<open>How many pixels the transform changes\<close>




subsection \<open>In-place update and frame\<close>

text \<open>
  Claim C6, as stated: the call mutates the provided image tensor in place and returns
  that same tensor; every pixel position outside the selected subset of
  \<open>floor(N*noise_level)\<close> positions keeps exactly its original value. It fails in three
  ways. Three pixels at the float nearest to one third: \<open>floor(N*noise_level)\<close> is 0, yet
  one position is selected and that pixel does not keep its value. A tensor that does
  not admit the flat view: the call raises and returns no tensor. A noise level that is
  not a number: the call raises and returns no tensor.
\<close>

theorem RandomNoise_call_in_place_counterexample:
  "viewable (tensors example_state 1)
   \<and> noise_level third_noise = Finite (6004799503160661 / 18014398509481984)
   \<and> \<lfloor>real (length (elems (tensors example_state 1)))
        * (6004799503160661 / 18014398509481984)\<rfloor> = 0
   \<and> noise_positions example_perm third_noise 1 example_state = [2]
   \<and> elems (tensors example_state 1) ! 2 = Finite 0
   \<and> elems (tensors (snd (RandomNoise_call example_perm third_noise 1 example_state)) 1) ! 2
       = Finite (3 / 4)
   \<and> \<not> viewable (tensors example_state 2)
   \<and> fst (RandomNoise_call example_perm example_noise 2 example_state) = Inl RuntimeError
   \<and> viewable (tensors example_state 0)
   \<and> noise_level nan_noise = NaN
   \<and> fst (RandomNoise_call example_perm nan_noise 0 example_state) = Inl ValueError"
proof -
  have l: "noise_level third_noise = Finite (6004799503160661 / 18014398509481984)"
    "noise_level nan_noise = NaN"
    by (simp_all add: third_noise_def nan_noise_def RandomNoise_init_def)
  show ?thesis
    by (simp add: example_call example_raises example_tensors example_image_def
        example_noise_positions l)
qed

text \<open>
  Claim C6, amended: when the image tensor admits the flat view and
  \<^verbatim>\<open>int(N*noise_level)\<close>, taken on the float product that the code computes, evaluates to
  \<open>k\<close>, the call mutates the provided image tensor in place and returns that same tensor:
  the selected subset is the slice \<^verbatim>\<open>[0:k]\<close> of the drawn ordering, its positions are
  distinct and, for \<open>k\<close> not negative, \<open>min(k, N)\<close> in number; every selected position
  holds the white value converted to the element type of the tensor, and every pixel
  position outside the selected subset keeps exactly its original value; the size, the
  element type and the layout of the tensor are kept. When the tensor does not admit the
  flat view the call raises RuntimeError, and when \<^verbatim>\<open>int(N*noise_level)\<close> raises the
  call raises that error; in both cases no tensor is returned and the state is as
  before. The ordering that numpy draws is taken to be a permutation of the range.
\<close>

theorem RandomNoise_call_in_place:
  assumes "is_permutation_of_range (fst (perm (np_rng s) (length (elems (tensors s img)))))
             (length (elems (tensors s img)))"
  shows "(\<forall>k. viewable (tensors s img) \<and> num_noise_bits self (tensors s img) = Inr k \<longrightarrow>
            fst (RandomNoise_call perm self img s) = Inr img
          \<and> noise_positions perm self img s =
              slice_upto (fst (perm (np_rng s) (length (elems (tensors s img))))) k
          \<and> distinct (noise_positions perm self img s)
          \<and> (0 \<le> k \<longrightarrow> length (noise_positions perm self img s) =
                min (nat k) (length (elems (tensors s img))))
          \<and> (\<forall>i < length (elems (tensors s img)).
                elems (tensors (snd (RandomNoise_call perm self img s)) img) ! i =
                  (if i \<in> set (noise_positions perm self img s)
                   then store_cast (dtype (tensors s img)) (white_value self)
                   else elems (tensors s img) ! i))
          \<and> length (elems (tensors (snd (RandomNoise_call perm self img s)) img)) =
              length (elems (tensors s img))
          \<and> dtype (tensors (snd (RandomNoise_call perm self img s)) img) =
              dtype (tensors s img)
          \<and> viewable (tensors (snd (RandomNoise_call perm self img s)) img))
       \<and> (\<not> viewable (tensors s img) \<longrightarrow>
            RandomNoise_call perm self img s = (Inl RuntimeError, s))
       \<and> (\<forall>e. viewable (tensors s img) \<and> num_noise_bits self (tensors s img) = Inl e \<longrightarrow>
            RandomNoise_call perm self img s = (Inl e, s))"
proof (intro conjI allI impI)
  fix k
  assume h: "viewable (tensors s img) \<and> num_noise_bits self (tensors s img) = Inr k"
  then have v: "viewable (tensors s img)"
    and k: "num_noise_bits self (tensors s img) = Inr k" by simp_all
  note r = RandomNoise_call_result[where perm = perm and s = s and img = img,
      OF assms v k]
  show "fst (RandomNoise_call perm self img s) = Inr img" by (simp add: r)
  show "noise_positions perm self img s =
      slice_upto (fst (perm (np_rng s) (length (elems (tensors s img))))) k"
    using v k by (rule noise_positions_eq)
  show "distinct (noise_positions perm self img s)"
    using assms by (rule noise_positions_perm(1))
  show "length (noise_positions perm self img s) =
      min (nat k) (length (elems (tensors s img)))" if "0 \<le> k"
    using assms v k that by (rule noise_positions_length)
  show "elems (tensors (snd (RandomNoise_call perm self img s)) img) ! i =
      (if i \<in> set (noise_positions perm self img s)
       then store_cast (dtype (tensors s img)) (white_value self)
       else elems (tensors s img) ! i)" if "i < length (elems (tensors s img))" for i
    using that by (simp add: r nth_fold_update)
  show "length (elems (tensors (snd (RandomNoise_call perm self img s)) img)) =
      length (elems (tensors s img))" by (simp add: r)
  show "dtype (tensors (snd (RandomNoise_call perm self img s)) img) =
      dtype (tensors s img)" by (simp add: r)
  show "viewable (tensors (snd (RandomNoise_call perm self img s)) img)"
    using v by (simp add: r)
next
  assume "\<not> viewable (tensors s img)"
  then show "RandomNoise_call perm self img s = (Inl RuntimeError, s)"
    by (rule RandomNoise_call_raises(1))
next
  fix e
  assume "viewable (tensors s img) \<and> num_noise_bits self (tensors s img) = Inl e"
  then show "RandomNoise_call perm self img s = (Inl e, s)"
    by (simp add: RandomNoise_call_raises(2))
qed

theorem RandomNoise_call_in_place_witness:
  "is_permutation_of_range (fst (example_perm (np_rng example_state)
      (length (elems (tensors example_state 0))))) (length (elems (tensors example_state 0)))
   \<and> viewable (tensors example_state 0)
   \<and> num_noise_bits example_noise (tensors example_state 0) = Inr 2
   \<and> fst (RandomNoise_call example_perm example_noise 0 example_state) = Inr 0
   \<and> length (noise_positions example_perm example_noise 0 example_state) = 2
   \<and> elems (tensors (snd (RandomNoise_call example_perm example_noise 0 example_state)) 0) ! 3
       = store_cast (dtype (tensors example_state 0)) (white_value example_noise)
   \<and> elems (tensors (snd (RandomNoise_call example_perm example_noise 0 example_state)) 0) ! 1
       = elems (tensors example_state 0) ! 1"
proof -
  have h1: "viewable (tensors example_state 0)"
    by (simp add: example_tensors example_image_def)
  note h2 = example_perm_ok[of "np_rng example_state" 0]
  have k: "num_noise_bits example_noise (tensors example_state 0) = Inr 2"
    by (simp add: example_tensors example_num_noise_bits)
  have n: "length (elems (tensors example_state 0)) = 4"
    by (simp add: example_tensors example_image_def)
  note t = RandomNoise_call_in_place[where perm = example_perm and s = example_state
        and img = 0 and self = example_noise, OF h2, THEN conjunct1, rule_format,
        OF conjI, OF h1 k]
  have p: "noise_positions example_perm example_noise 0 example_state = [3, 2]"
    by (rule example_noise_positions(1))
  have t0: "fst (RandomNoise_call example_perm example_noise 0 example_state) = Inr 0"
    using t[THEN conjunct1] .
  have t2: "length (noise_positions example_perm example_noise 0 example_state) = 2"
    using t[THEN conjunct2, THEN conjunct2, THEN conjunct2, THEN conjunct1]
    by (simp add: n)
  have t3: "elems (tensors (snd (RandomNoise_call example_perm example_noise 0
                example_state)) 0) ! 3
       = store_cast (dtype (tensors example_state 0)) (white_value example_noise)"
    using t[THEN conjunct2, THEN conjunct2, THEN conjunct2, THEN conjunct2,
        THEN conjunct1, rule_format, of 3]
    by (simp add: n p)
  have t1: "elems (tensors (snd (RandomNoise_call example_perm example_noise 0
                example_state)) 0) ! 1
       = elems (tensors example_state 0) ! 1"
    using t[THEN conjunct2, THEN conjunct2, THEN conjunct2, THEN conjunct2,
        THEN conjunct1, rule_format, of 1]
    by (simp add: n p)
  show ?thesis
    using h1 h2 k t0 t1 t2 t3 by simp
qed

subsection \<open>Determinism from a seed\<close>

text \<open>
  Claim C8: two runs started from the same generator seed, given the same input image
  and noise level, select the same pixel positions and produce identical output tensors.
  The two runs may start in different program states (other tensors, another reference
  for the image, another generator state before seeding): only the seed, the transform
  and the pixels of the image decide the positions, the output and the generator state
  left behind. The same holds for any two calls that start from equal generator states,
  as the later calls of two runs from one seed do.
\<close>

theorem RandomNoise_call_deterministic:
  assumes "tensors s1 img1 = tensors s2 img2"
  shows "noise_positions perm self img1 (s1\<lparr>np_rng := seed_state seed\<rparr>) =
           noise_positions perm self img2 (s2\<lparr>np_rng := seed_state seed\<rparr>)
       \<and> tensors (snd (seeded_call seed_state perm seed self img1 s1)) img1 =
           tensors (snd (seeded_call seed_state perm seed self img2 s2)) img2
       \<and> np_rng (snd (seeded_call seed_state perm seed self img1 s1)) =
           np_rng (snd (seeded_call seed_state perm seed self img2 s2))
       \<and> (fst (seeded_call seed_state perm seed self img1 s1) = Inr img1 \<longleftrightarrow>
            fst (seeded_call seed_state perm seed self img2 s2) = Inr img2)
       \<and> (np_rng s1 = np_rng s2 \<longrightarrow>
            noise_positions perm self img1 s1 = noise_positions perm self img2 s2
          \<and> tensors (snd (RandomNoise_call perm self img1 s1)) img1 =
              tensors (snd (RandomNoise_call perm self img2 s2)) img2
          \<and> np_rng (snd (RandomNoise_call perm self img1 s1)) =
              np_rng (snd (RandomNoise_call perm self img2 s2)))"
  using assms
  by (auto simp: seeded_call_def RandomNoise_call_def noise_positions_def Let_def
           split: sum.splits)

theorem RandomNoise_call_deterministic_witness:
  "tensors example_state 0 = tensors example_state2 7
   \<and> noise_positions example_perm example_noise 0 (example_state\<lparr>np_rng := id 18\<rparr>) =
       noise_positions example_perm example_noise 7 (example_state2\<lparr>np_rng := id 18\<rparr>)
   \<and> tensors (snd (seeded_call id example_perm 18 example_noise 0 example_state)) 0 =
       tensors (snd (seeded_call id example_perm 18 example_noise 7 example_state2)) 7"
proof -
  have h: "tensors example_state 0 = tensors example_state2 7"
    by (simp add: example_state_def example_state2_def)
  show ?thesis
    using h RandomNoise_call_deterministic[where perm = example_perm and seed_state = id
        and seed = 18 and self = example_noise, OF h]
    by simp
qed

subsection \<open>No noise\<close>

text \<open>
  Claim C9, as stated: with the default noise level \<open>0\<close>, and more generally for an image
  of \<open>N\<close> pixels and a noise level \<open>p\<close> with \<open>N*p < 1\<close>, the call is the identity on the
  image. It fails in three ways. Three pixels at the float nearest to one third: \<open>N*p\<close>
  is below 1, the float product is 1, and one pixel is overwritten. Four pixels at the
  level \<open>-1/2\<close>: \<open>N*p\<close> is \<open>-2\<close>, the slice \<^verbatim>\<open>[0:-2]\<close> holds two positions, and a pixel is
  overwritten. A tensor that does not admit the flat view, at the default level: the
  call raises and returns no tensor.
\<close>

theorem RandomNoise_call_identity_counterexample:
  "noise_level third_noise = Finite (6004799503160661 / 18014398509481984)
   \<and> real (length (elems (tensors example_state 1)))
        * (6004799503160661 / 18014398509481984) < 1
   \<and> noise_positions example_perm third_noise 1 example_state = [2]
   \<and> elems (tensors example_state 1) = [Finite 0, Finite 0, Finite 0]
   \<and> elems (tensors (snd (RandomNoise_call example_perm third_noise 1 example_state)) 1)
       = [Finite 0, Finite 0, Finite (3 / 4)]
   \<and> noise_level negative_noise = Finite (- 1 / 2)
   \<and> real (length (elems (tensors example_state 0))) * (- 1 / 2) < 1
   \<and> noise_positions example_perm negative_noise 0 example_state = [3, 2]
   \<and> elems (tensors example_state 0)
       = [Finite 0, Finite (1 / 4), Finite (3 / 4), Finite 1]
   \<and> elems (tensors (snd (RandomNoise_call example_perm negative_noise 0 example_state)) 0)
       = [Finite 0, Finite (1 / 4), Finite (3 / 4), Finite (3 / 4)]
   \<and> noise_level RandomNoise_default = Finite 0
   \<and> \<not> viewable (tensors example_state 2)
   \<and> fst (RandomNoise_call example_perm RandomNoise_default 2 example_state)
       = Inl RuntimeError"
proof -
  have l: "noise_level third_noise = Finite (6004799503160661 / 18014398509481984)"
    "noise_level negative_noise = Finite (- 1 / 2)"
    "noise_level RandomNoise_default = Finite 0"
    by (simp_all add: third_noise_def negative_noise_def RandomNoise_default_def
        RandomNoise_init_def)
  show ?thesis
    by (simp add: example_call example_raises example_tensors example_image_def
        example_noise_positions l)
qed

text \<open>
  Claim C9, amended: for an image tensor that admits the flat view and a noise level
  such that the float product \<^verbatim>\<open>N*noise_level\<close> that the code computes lies strictly
  between \<open>-1\<close> and \<open>1\<close>, the call is the identity on the image: no position is selected,
  the call returns the image, and every tensor is as before. The default noise level is
  0, and there the float product is 0 whenever \<open>N\<close> converts to a float. For \<open>N\<close> below
  \<open>2^53\<close> and a level \<open>p\<close> that is not negative, with \<open>N*p\<close> at most \<open>1 - 2^-53\<close>, the float
  product is at least 0 and below 1.
\<close>

theorem RandomNoise_call_identity:
  "(\<forall>y. viewable (tensors s img)
         \<and> noise_product self (tensors s img) = Inr (Finite y) \<and> - 1 < y \<and> y < 1 \<longrightarrow>
         noise_positions perm self img s = []
       \<and> fst (RandomNoise_call perm self img s) = Inr img
       \<and> tensors (snd (RandomNoise_call perm self img s)) = tensors s)
   \<and> noise_level RandomNoise_default = Finite 0
   \<and> (\<forall>n. int_to_float (length (elems (tensors s img))) = Inr n \<longrightarrow>
         noise_product RandomNoise_default (tensors s img) = Inr (Finite 0))
   \<and> (\<forall>p. noise_level self = Finite p \<and> 0 \<le> p
         \<and> length (elems (tensors s img)) < 2 ^ 53
         \<and> real (length (elems (tensors s img))) * p \<le> 1 - 1 / 2 ^ 53 \<longrightarrow>
         (\<exists>y. noise_product self (tensors s img) = Inr (Finite y) \<and> 0 \<le> y \<and> y < 1))"
proof (intro conjI allI impI)
  fix y
  assume h: "viewable (tensors s img)
         \<and> noise_product self (tensors s img) = Inr (Finite y) \<and> - 1 < y \<and> y < 1"
  then have v: "viewable (tensors s img)" by simp
  have k: "num_noise_bits self (tensors s img) = Inr 0"
    using h by (intro num_noise_bits_zero[of self "tensors s img" y]) simp_all
  show e: "noise_positions perm self img s = []"
    by (simp add: noise_positions_eq[OF v k] slice_upto_def)
  show "fst (RandomNoise_call perm self img s) = Inr img"
    using v k by (simp add: RandomNoise_call_def e index_assign_def Let_def)
  show "tensors (snd (RandomNoise_call perm self img s)) = tensors s"
    using v k by (simp add: RandomNoise_call_def e index_assign_def Let_def)
next
  show "noise_level RandomNoise_default = Finite 0"
    by (simp add: RandomNoise_default_def RandomNoise_init_def)
next
  fix n
  assume "int_to_float (length (elems (tensors s img))) = Inr n"
  then show "noise_product RandomNoise_default (tensors s img) = Inr (Finite 0)"
    by (simp add: noise_product_def RandomNoise_default_def RandomNoise_init_def
        float64_def float_round_def)
next
  fix p
  assume h: "noise_level self = Finite p \<and> 0 \<le> p
         \<and> length (elems (tensors s img)) < 2 ^ 53
         \<and> real (length (elems (tensors s img))) * p \<le> 1 - 1 / 2 ^ 53"
  then have n: "int_to_float (length (elems (tensors s img))) =
      Inr (real (length (elems (tensors s img))))"
    by (simp add: int_to_float_small)
  have "0 \<le> real (length (elems (tensors s img))) * p" using h by simp
  from float64_below_one[OF this] h
  obtain y where "float64 (real (length (elems (tensors s img))) * p) = Finite y"
    "0 \<le> y" "y < 1" by blast
  then show "\<exists>y. noise_product self (tensors s img) = Inr (Finite y) \<and> 0 \<le> y \<and> y < 1"
    using h by (simp add: noise_product_def n)
qed

theorem RandomNoise_call_identity_witness:
  "viewable (tensors example_state 0)
   \<and> noise_product RandomNoise_default (tensors example_state 0) = Inr (Finite 0)
   \<and> noise_positions example_perm RandomNoise_default 0 example_state = []
   \<and> fst (RandomNoise_call example_perm RandomNoise_default 0 example_state) = Inr 0
   \<and> tensors (snd (RandomNoise_call example_perm RandomNoise_default 0 example_state))
        = tensors example_state"
proof -
  have h1: "viewable (tensors example_state 0)"
    by (simp add: example_tensors example_image_def)
  have "length (elems (tensors example_state 0)) = 4"
    by (simp add: example_tensors example_image_def)
  then have n: "int_to_float (length (elems (tensors example_state 0))) = Inr 4"
    using int_to_float_small[of 4] by simp
  note t = RandomNoise_call_identity[where perm = example_perm and s = example_state
      and img = 0 and self = RandomNoise_default]
  have h2: "noise_product RandomNoise_default (tensors example_state 0) = Inr (Finite 0)"
    using t[THEN conjunct2, THEN conjunct2, THEN conjunct1, rule_format, OF n] .
  show ?thesis
    using h1 h2 t[THEN conjunct1, rule_format, of 0] by simp
qed

section \<open>Properties of the loops\<close>

subsection \<open>Auxiliary facts about \<open>train\<close>\<close>


lemma world_effect [simp]: "world (effect e f s) = f (world s)"
  by (simp add: effect_def)

lemma trace_effect [simp]: "trace (effect e f s) = trace s @ [e]"
  by (simp add: effect_def)

lemma trace_train_batch:
  "trace (train_batch T model optimizer criterion cb batch s) = trace s @ batch_events cb"
  by (simp add: train_batch_def batch_events_def Let_def split: option.splits)

lemma world_train_batch:
  "world (train_batch T model optimizer criterion cb batch s) =
     (case cb of None \<Rightarrow> (\<lambda>w. w) | Some f \<Rightarrow> f)
       (step optimizer
         (backward T
           (criterion (fst (call model (fst batch) (zero_grad optimizer (world s))))
              (snd batch) Mean)
           (snd (call model (fst batch) (zero_grad optimizer (world s))))))"
  by (simp add: train_batch_def Let_def split: option.splits)

lemma trace_fold_train_batch:
  "trace (fold (train_batch T model optimizer criterion cb) batches s) =
     trace s @ concat (map (\<lambda>b. batch_events cb) batches)"
  by (induction batches arbitrary: s) (simp_all add: trace_train_batch)


lemma trace_train:
  "trace (train T model loader optimizer criterion cb s) =
     trace s @ [ModelTrain, Iterate loader]
       @ concat (map (\<lambda>b. batch_events cb)
           (fst (iterate T loader (train_mode model (world s)))))"
  by (simp add: train_def Let_def trace_fold_train_batch)

subsection \<open>The order of the steps of a training batch\<close>

text \<open>
  Claim C4: for every batch in \<open>train\<close> the steps happen in this order: gradients are
  zeroed, the forward pass computes the output, the loss is computed from output and
  target, the backward pass runs, the optimizer takes a step, and then, if and only if a
  callback was provided, the callback is called exactly once on the model. The calls of
  a whole pass are \<^verbatim>\<open>model.train()\<close>, the iteration of the loader, and one such block
  per batch; the state a batch leaves is the optimizer step applied to the backward pass
  of the loss of the forward pass on the zeroed gradients, and with a callback it is the
  callback applied to what the batch leaves without one.
\<close>

theorem train_call_order:
  "trace (train T model loader optimizer criterion cb s) =
     trace s @ [ModelTrain, Iterate loader]
       @ concat (map (\<lambda>b. batch_events cb)
           (fst (iterate T loader (train_mode model (world s)))))
   \<and> batch_events None = [ZeroGrad, Forward, Criterion Mean, Backward, OptimizerStep]
   \<and> batch_events (Some f) =
       [ZeroGrad, Forward, Criterion Mean, Backward, OptimizerStep, PostBatchCallback]
   \<and> world (train_batch T model optimizer criterion None batch s') =
       step optimizer
         (backward T
           (criterion (fst (call model (fst batch) (zero_grad optimizer (world s'))))
              (snd batch) Mean)
           (snd (call model (fst batch) (zero_grad optimizer (world s')))))
   \<and> world (train_batch T model optimizer criterion (Some f) batch s') =
       f (world (train_batch T model optimizer criterion None batch s'))"
proof -
  have calls: "trace (train T model loader optimizer criterion cb s) =
     trace s @ [ModelTrain, Iterate loader]
       @ concat (map (\<lambda>b. batch_events cb)
           (fst (iterate T loader (train_mode model (world s)))))"
    by (rule trace_train)
  have without: "batch_events None =
      [ZeroGrad, Forward, Criterion Mean, Backward, OptimizerStep]"
    by (simp add: batch_events_def)
  have with_cb: "batch_events (Some f) =
      [ZeroGrad, Forward, Criterion Mean, Backward, OptimizerStep, PostBatchCallback]"
    by (simp add: batch_events_def)
  have state: "world (train_batch T model optimizer criterion None batch s') =
       step optimizer
         (backward T
           (criterion (fst (call model (fst batch) (zero_grad optimizer (world s'))))
              (snd batch) Mean)
           (snd (call model (fst batch) (zero_grad optimizer (world s')))))"
    by (simp add: world_train_batch)
  have state_cb: "world (train_batch T model optimizer criterion (Some f) batch s') =
       f (world (train_batch T model optimizer criterion None batch s'))"
    by (simp add: world_train_batch)
  show ?thesis
    using calls without with_cb state state_cb by (intro conjI)
qed


subsection \<open>Auxiliary facts about \<open>test\<close>\<close>

lemma test_loop_trace:
  "\<exists>evs. trace (snd (test_loop T model criterion batches acc s)) = trace s @ evs
        \<and> set evs \<subseteq> {Forward, Criterion Sum}"
proof (induction batches arbitrary: acc s)
  case Nil
  then show ?case by simp
next
  case (Cons b batches)
  obtain data target where b: "b = (data, target)" by (cases b)
  obtain loss tc where acc: "acc = (loss, tc)" by (cases acc)
  let ?s2 = "effect (Criterion Sum) (\<lambda>w. w) (effect Forward (\<lambda>w. snd (call model data w)) s)"
  show ?case
  proof (cases "eq_sum (argmax_dim1 T (fst (call model data (world s)))) target")
    case (Inl e)
    then have "trace (snd (test_loop T model criterion (b # batches) acc s)) =
        trace s @ [Forward, Criterion Sum]"
      by (simp add: b acc Let_def)
    then show ?thesis by auto
  next
    case (Inr c)
    from Cons.IH[of "(loss + item T (criterion (fst (call model data (world s))) target Sum), tc + c)" ?s2]
    obtain evs where
      "trace (snd (test_loop T model criterion batches
          (loss + item T (criterion (fst (call model data (world s))) target Sum), tc + c) ?s2))
        = trace ?s2 @ evs" "set evs \<subseteq> {Forward, Criterion Sum}"
      by blast
    then have "trace (snd (test_loop T model criterion (b # batches) acc s)) =
        trace s @ ([Forward, Criterion Sum] @ evs)
        \<and> set ([Forward, Criterion Sum] @ evs) \<subseteq> {Forward, Criterion Sum}"
      using Inr by (simp add: b acc Let_def)
    then show ?thesis by blast
  qed
qed

lemma test_loop_frame:
  assumes "\<And>d w. obs (snd (call model d w)) = obs w"
  shows "obs (world (snd (test_loop T model criterion batches acc s))) = obs (world s)"
proof (induction batches arbitrary: acc s)
  case Nil
  then show ?case by simp
next
  case (Cons b batches)
  obtain data target where b: "b = (data, target)" by (cases b)
  obtain loss tc where acc: "acc = (loss, tc)" by (cases acc)
  show ?case
    by (cases "eq_sum (argmax_dim1 T (fst (call model data (world s)))) target")
       (simp_all add: b acc Let_def Cons.IH assms)
qed

lemma snd_test:
  "snd (test T model loader criterion s) =
     effect NoGradExit (no_grad_exit T)
       (snd (test_loop T model criterion (test_batches T model loader s) (0, 0)
          (effect (Iterate loader) (\<lambda>w. snd (iterate T loader w))
            (effect NoGradEnter (no_grad_enter T) (effect ModelEval (eval_mode model) s)))))"
  by (simp add: test_def test_batches_def Let_def split: sum.splits prod.splits)

lemma trace_test:
  "\<exists>evs. trace (snd (test T model loader criterion s)) =
            trace s @ [ModelEval, NoGradEnter, Iterate loader] @ evs @ [NoGradExit]
          \<and> set evs \<subseteq> {Forward, Criterion Sum}"
proof -
  let ?s3 = "effect (Iterate loader) (\<lambda>w. snd (iterate T loader w))
            (effect NoGradEnter (no_grad_enter T) (effect ModelEval (eval_mode model) s))"
  let ?r = "test_loop T model criterion (test_batches T model loader s) (0, 0) ?s3"
  obtain evs where "trace (snd ?r) = trace ?s3 @ evs" "set evs \<subseteq> {Forward, Criterion Sum}"
    using test_loop_trace by blast
  then have "trace (snd (test T model loader criterion s)) =
              trace s @ [ModelEval, NoGradEnter, Iterate loader] @ evs @ [NoGradExit]
            \<and> set evs \<subseteq> {Forward, Criterion Sum}"
    by (simp add: snd_test)
  then show ?thesis by blast
qed

lemma test_frame:
  assumes "\<forall>w. obs (eval_mode model w) = obs w"
    and "\<forall>w. obs (no_grad_enter T w) = obs w"
    and "\<forall>w. obs (no_grad_exit T w) = obs w"
    and "\<forall>w. obs (snd (iterate T loader w)) = obs w"
    and "\<forall>d w. obs (snd (call model d w)) = obs w"
  shows "obs (world (snd (test T model loader criterion s))) = obs (world s)"
proof -
  let ?s3 = "effect (Iterate loader) (\<lambda>w. snd (iterate T loader w))
            (effect NoGradEnter (no_grad_enter T) (effect ModelEval (eval_mode model) s))"
  let ?r = "test_loop T model criterion (test_batches T model loader s) (0, 0) ?s3"
  have "obs (world (snd ?r)) = obs (world ?s3)"
    using assms(5) by (intro test_loop_frame) simp
  also have "\<dots> = obs (world s)"
    using assms(1,2,4) by simp
  finally show ?thesis
    using assms(3) by (simp add: snd_test)
qed

lemma zip_as_map:
  "length ps = length ts \<Longrightarrow> zip ps ts = map (\<lambda>i. (ps ! i, ts ! i)) [0..<length ts]"
  by (rule nth_equalityI) simp_all

lemma samples_correct_zip:
  assumes "length ps = length ts"
  shows "samples_correct ps ts = length (filter (\<lambda>(p, t). p = t) (zip ps ts))"
proof -
  have "samples_correct ps ts = length (filter (\<lambda>i. ps ! i = ts ! i) [0..<length ts])"
    unfolding samples_correct_def by (intro distinct_card distinct_filter distinct_upt)
  also have "\<dots> = length (filter (\<lambda>(p, t). p = t) (zip ps ts))"
    by (simp add: zip_as_map[OF assms] filter_map comp_def)
  finally show ?thesis .
qed

lemma eq_sum_correct:
  "length pred = length target \<Longrightarrow> eq_sum pred target = Inr (int (samples_correct pred target))"
  by (simp add: eq_sum_def samples_correct_zip)

lemma samples_correct_append:
  assumes "length ps = length ts" "length ps' = length ts'"
  shows "samples_correct (ps @ ps') (ts @ ts') = samples_correct ps ts + samples_correct ps' ts'"
  using assms by (simp add: samples_correct_zip)

lemma samples_correct_le: "samples_correct ps ts \<le> length ts"
proof -
  have "samples_correct ps ts = length (filter (\<lambda>i. ps ! i = ts ! i) [0..<length ts])"
    unfolding samples_correct_def by (intro distinct_card distinct_filter distinct_upt)
  also have "\<dots> \<le> length [0..<length ts]" by (rule length_filter_le)
  finally show ?thesis by simp
qed

lemma length_concat_preds:
  "well_shaped E \<Longrightarrow> length (concat (map fst E)) = length (concat (map (\<lambda>e. fst (snd e)) E))"
  by (induction E) (auto simp: well_shaped_def)

lemma test_loop_result:
  assumes "well_shaped (eval_pass T model criterion batches (world s))"
  shows "fst (test_loop T model criterion batches (loss, tc) s) =
           Inr (loss + sum_list (map (\<lambda>e. snd (snd e)) (eval_pass T model criterion batches (world s))),
                tc + int (samples_correct
                   (concat (map fst (eval_pass T model criterion batches (world s))))
                   (concat (map (\<lambda>e. fst (snd e)) (eval_pass T model criterion batches (world s))))))"
  using assms
proof (induction batches arbitrary: loss tc s)
  case Nil
  then show ?case by (simp add: samples_correct_def)
next
  case (Cons b batches)
  obtain data target where b: "b = (data, target)" by (cases b)
  let ?r = "call model data (world s)"
  let ?pred = "argmax_dim1 T (fst ?r)"
  let ?s2 = "effect (Criterion Sum) (\<lambda>w. w) (effect Forward (\<lambda>w. snd (call model data w)) s)"
  let ?E = "eval_pass T model criterion batches (snd ?r)"
  have len: "length ?pred = length target" and ws: "well_shaped ?E"
    using Cons.prems by (simp_all add: b well_shaped_def Let_def)
  have w2: "world ?s2 = snd ?r" by simp
  have IH: "fst (test_loop T model criterion batches (l, c) ?s2) =
           Inr (l + sum_list (map (\<lambda>e. snd (snd e)) ?E),
                c + int (samples_correct (concat (map fst ?E)) (concat (map (\<lambda>e. fst (snd e)) ?E))))"
    for l c
    using Cons.IH[of ?s2 l c] ws by (simp only: w2)
  have "samples_correct (?pred @ concat (map fst ?E)) (target @ concat (map (\<lambda>e. fst (snd e)) ?E)) =
      samples_correct ?pred target
      + samples_correct (concat (map fst ?E)) (concat (map (\<lambda>e. fst (snd e)) ?E))"
    using len length_concat_preds[OF ws] by (rule samples_correct_append)
  then show ?case
    by (simp add: b Let_def eq_sum_correct[OF len] IH)
qed


lemma fst_test:
  "fst (test T model loader criterion s) =
     (case fst (test_loop T model criterion (test_batches T model loader s) (0, 0)
          (effect (Iterate loader) (\<lambda>w. snd (iterate T loader w))
            (effect NoGradEnter (no_grad_enter T) (effect ModelEval (eval_mode model) s)))) of
        Inl e \<Rightarrow> Inl e
      | Inr (loss, total_correct) \<Rightarrow>
          if dataset_len T (dataset loader) = 0 then Inl ZeroDivisionError
          else Inr [''accuracy'' \<mapsto>
                      PyFloat (real_of_int total_correct / real (dataset_len T (dataset loader))),
                    ''loss'' \<mapsto> PyFloat (loss / real (dataset_len T (dataset loader))),
                    ''total_correct'' \<mapsto> PyInt total_correct])"
  by (simp add: test_def test_batches_def Let_def split: sum.splits prod.splits)

lemma eq_sum_bounds: "eq_sum pred target = Inr c \<Longrightarrow> 0 \<le> c \<and> c \<le> int (length target)"
proof -
  assume a: "eq_sum pred target = Inr c"
  then have len: "length pred = length target"
    by (simp add: eq_sum_def split: if_splits)
  have "c = int (samples_correct pred target)"
    using a eq_sum_correct[OF len] by simp
  then show ?thesis using samples_correct_le[of pred target] by simp
qed

lemma test_loop_bounds:
  "fst (test_loop T model criterion batches (loss, tc) s) = Inr (loss', tc') \<Longrightarrow>
   tc \<le> tc' \<and> tc' \<le> tc + int (sum_list (map (\<lambda>b. length (snd b)) batches))"
proof (induction batches arbitrary: loss tc s)
  case Nil
  then show ?case by simp
next
  case (Cons b batches)
  obtain data target where b: "b = (data, target)" by (cases b)
  let ?out = "fst (call model data (world s))"
  show ?case
  proof (cases "eq_sum (argmax_dim1 T ?out) target")
    case (Inl e)
    then show ?thesis using Cons.prems by (simp add: b Let_def)
  next
    case (Inr c)
    let ?s2 = "effect (Criterion Sum) (\<lambda>w. w) (effect Forward (\<lambda>w. snd (call model data w)) s)"
    have "fst (test_loop T model criterion batches
              (loss + item T (criterion ?out target Sum), tc + c) ?s2) = Inr (loss', tc')"
      using Cons.prems Inr by (simp add: b Let_def)
    from Cons.IH[OF this] eq_sum_bounds[OF Inr]
    show ?thesis by (simp add: b)
  qed
qed

lemma test_returns:
  assumes "0 < dataset_len T (dataset loader)"
    and "well_shaped (test_pass T model loader criterion s)"
  shows "fst (test T model loader criterion s) =
           Inr [''accuracy'' \<mapsto>
                  PyFloat (real (samples_correct
                      (all_predictions (test_pass T model loader criterion s))
                      (all_labels (test_pass T model loader criterion s)))
                    / real (dataset_len T (dataset loader))),
                ''loss'' \<mapsto>
                  PyFloat (summed_loss (test_pass T model loader criterion s)
                    / real (dataset_len T (dataset loader))),
                ''total_correct'' \<mapsto>
                  PyInt (int (samples_correct
                      (all_predictions (test_pass T model loader criterion s))
                      (all_labels (test_pass T model loader criterion s))))]"
proof -
  let ?s3 = "effect (Iterate loader) (\<lambda>w. snd (iterate T loader w))
            (effect NoGradEnter (no_grad_enter T) (effect ModelEval (eval_mode model) s))"
  have w3: "world ?s3 = snd (iterate T loader (no_grad_enter T (eval_mode model (world s))))"
    by simp
  have E: "eval_pass T model criterion (test_batches T model loader s) (world ?s3) =
      test_pass T model loader criterion s"
    by (simp only: w3 test_pass_def)
  have "well_shaped (eval_pass T model criterion (test_batches T model loader s) (world ?s3))"
    using assms(2) by (simp only: E)
  from test_loop_result[OF this, of 0 0]
  have r: "fst (test_loop T model criterion (test_batches T model loader s) (0, 0) ?s3) =
      Inr (summed_loss (test_pass T model loader criterion s),
           int (samples_correct (all_predictions (test_pass T model loader criterion s))
                  (all_labels (test_pass T model loader criterion s))))"
    by (simp only: E) (simp add: summed_loss_def all_predictions_def all_labels_def)
  show ?thesis
    using assms(1) by (simp add: fst_test r)
qed




subsection \<open>What \<open>test\<close> returns\<close>





subsection \<open>Evaluation leaves the parameters alone\<close>

text \<open>
  Claim C7: for every model, loader and criterion, running \<open>test\<close> leaves the model's
  parameter tensors unchanged: evaluation runs with gradient tracking disabled and
  performs no optimizer step. The parameters are any part of the framework state that
  \<^verbatim>\<open>model.eval()\<close>, entering and leaving \<^verbatim>\<open>torch.no_grad()\<close>, loading data and the
  forward pass do not write, as the framework has it: only the optimizer writes them.
  Then \<open>test\<close> does not write them either, and its calls are \<^verbatim>\<open>model.eval()\<close>, the
  entry into \<^verbatim>\<open>no_grad\<close>, the iteration, forward passes and loss evaluations, and
  the exit: no backward pass, no optimizer step, no callback.
\<close>

theorem test_keeps_parameters:
  assumes "\<forall>w. parameters (eval_mode model w) = parameters w"
    and "\<forall>w. parameters (no_grad_enter T w) = parameters w"
    and "\<forall>w. parameters (no_grad_exit T w) = parameters w"
    and "\<forall>w. parameters (snd (iterate T loader w)) = parameters w"
    and "\<forall>d w. parameters (snd (call model d w)) = parameters w"
  shows "parameters (world (snd (test T model loader criterion s))) = parameters (world s)
       \<and> (\<exists>evs. trace (snd (test T model loader criterion s)) =
              trace s @ [ModelEval, NoGradEnter, Iterate loader] @ evs @ [NoGradExit]
            \<and> set evs \<subseteq> {Forward, Criterion Sum})"
  using test_frame[where obs = parameters, OF assms] trace_test by blast

theorem test_keeps_parameters_witness:
  "(\<forall>w. toy_parameters (eval_mode toy_model w) = toy_parameters w)
   \<and> (\<forall>w. toy_parameters (no_grad_enter (toy_torch toy_batches 3) w) = toy_parameters w)
   \<and> (\<forall>w. toy_parameters (no_grad_exit (toy_torch toy_batches 3) w) = toy_parameters w)
   \<and> (\<forall>w. toy_parameters (snd (iterate (toy_torch toy_batches 3) test_loader w)) =
         toy_parameters w)
   \<and> (\<forall>d w. toy_parameters (snd (call toy_model d w)) = toy_parameters w)
   \<and> toy_parameters
        (world (snd (test (toy_torch toy_batches 3) toy_model test_loader toy_loss toy_state)))
       = toy_parameters (world toy_state)"
proof -
  have h1: "\<forall>w. toy_parameters (eval_mode toy_model w) = toy_parameters w"
    by (simp add: toy_model_def)
  have h2: "\<forall>w. toy_parameters (no_grad_enter (toy_torch toy_batches 3) w) = toy_parameters w"
    by (simp add: toy_torch_def)
  have h3: "\<forall>w. toy_parameters (no_grad_exit (toy_torch toy_batches 3) w) = toy_parameters w"
    by (simp add: toy_torch_def)
  have h4: "\<forall>w. toy_parameters (snd (iterate (toy_torch toy_batches 3) test_loader w)) =
         toy_parameters w"
    by (simp add: toy_torch_def)
  have h5: "\<forall>d w. toy_parameters (snd (call toy_model d w)) = toy_parameters w"
    by (simp add: toy_model_def toy_parameters_def)
  show ?thesis
    using h1 h2 h3 h4 h5
      test_keeps_parameters[where parameters = toy_parameters and s = toy_state
        and criterion = toy_loss, OF h1 h2 h3 h4 h5]
    by blast
qed


subsection \<open>The range of the counts\<close>

text \<open>
  Claim C10, as stated: for every dataset, the total_correct value returned by \<open>test\<close>
  is a non-negative integer no greater than the number of samples in the dataset, and
  hence the returned accuracy lies in \<open>[0,1]\<close>. It fails when the loader yields more
  labels than \<^verbatim>\<open>len(loader.dataset)\<close> reports: with three batches of two samples, all
  predicted correctly, over a dataset of size three, total_correct is 6 and the accuracy
  is 2.
\<close>

theorem test_accuracy_range_counterexample:
  "dataset_len (toy_torch over_batches 3) (dataset test_loader) = 3
   \<and> sum_list (map (\<lambda>b. length (snd b))
        (test_batches (toy_torch over_batches 3) toy_model test_loader toy_state)) = 6
   \<and> fst (test (toy_torch over_batches 3) toy_model test_loader toy_loss toy_state) =
       Inr [''accuracy'' \<mapsto> PyFloat 2, ''loss'' \<mapsto> PyFloat 0,
            ''total_correct'' \<mapsto> PyInt 6]"
  by (simp add: test_def test_batches_def Let_def toy_torch_def toy_model_def toy_loss_def
      over_batches_def toy_state_def effect_def eq_sum_def)

text \<open>
  Claim C10, amended: for every dataset, whenever \<open>test\<close> returns, the total_correct
  value it returns is a non-negative integer no greater than the number of labels that
  the loader yielded in the pass, and the returned accuracy is not negative; when the
  loader yields at most as many labels as the dataset has samples, total_correct is no
  greater than the number of samples in the dataset and the accuracy lies in \<open>[0,1]\<close>.
\<close>

theorem test_accuracy_range:
  assumes "fst (test T model loader criterion s) = Inr d"
  shows "\<exists>tc acc. d ''total_correct'' = Some (PyInt tc) \<and> 0 \<le> tc
           \<and> tc \<le> int (sum_list (map (\<lambda>b. length (snd b)) (test_batches T model loader s)))
           \<and> d ''accuracy'' = Some (PyFloat acc) \<and> 0 \<le> acc
           \<and> (sum_list (map (\<lambda>b. length (snd b)) (test_batches T model loader s))
                  \<le> dataset_len T (dataset loader) \<longrightarrow>
                tc \<le> int (dataset_len T (dataset loader)) \<and> acc \<le> 1)"
proof -
  let ?n = "dataset_len T (dataset loader)"
  let ?m = "sum_list (map (\<lambda>b. length (snd b)) (test_batches T model loader s))"
  let ?s3 = "effect (Iterate loader) (\<lambda>w. snd (iterate T loader w))
            (effect NoGradEnter (no_grad_enter T) (effect ModelEval (eval_mode model) s))"
  let ?r = "fst (test_loop T model criterion (test_batches T model loader s) (0, 0) ?s3)"
  from assms obtain loss tc where r: "?r = Inr (loss, tc)" and n: "?n \<noteq> 0"
    and d: "d = [''accuracy'' \<mapsto> PyFloat (real_of_int tc / real ?n),
                 ''loss'' \<mapsto> PyFloat (loss / real ?n),
                 ''total_correct'' \<mapsto> PyInt tc]"
    by (auto simp: fst_test split: sum.splits prod.splits if_splits)
  from test_loop_bounds[OF r]
  have b: "0 \<le> tc" "tc \<le> int ?m" by simp_all
  have a0: "0 \<le> real_of_int tc / real ?n" using b(1) by simp
  have a1: "tc \<le> int ?n \<and> real_of_int tc / real ?n \<le> 1" if "?m \<le> ?n"
  proof -
    have "tc \<le> int ?n" using b(2) that by simp
    then show ?thesis using n by (simp add: divide_le_eq_1)
  qed
  show ?thesis using b a0 a1 by (simp add: d)
qed

theorem test_accuracy_range_witness:
  "fst (test (toy_torch toy_batches 3) toy_model test_loader toy_loss toy_state) =
       Inr [''accuracy'' \<mapsto> PyFloat (1 / 3), ''loss'' \<mapsto> PyFloat (2 / 3),
            ''total_correct'' \<mapsto> PyInt 1]
   \<and> sum_list (map (\<lambda>b. length (snd b))
      (test_batches (toy_torch toy_batches 3) toy_model test_loader toy_state))
     \<le> dataset_len (toy_torch toy_batches 3) (dataset test_loader)
   \<and> (\<exists>tc acc. [''accuracy'' \<mapsto> PyFloat (1 / 3), ''loss'' \<mapsto> PyFloat (2 / 3),
            ''total_correct'' \<mapsto> PyInt 1] ''total_correct'' = Some (PyInt tc) \<and> 0 \<le> tc
         \<and> tc \<le> int (dataset_len (toy_torch toy_batches 3) (dataset test_loader))
         \<and> [''accuracy'' \<mapsto> PyFloat (1 / 3), ''loss'' \<mapsto> PyFloat (2 / 3),
            ''total_correct'' \<mapsto> PyInt 1] ''accuracy'' = Some (PyFloat acc)
         \<and> 0 \<le> acc \<and> acc \<le> 1)"
proof -
  have h1: "sum_list (map (\<lambda>b. length (snd b))
      (test_batches (toy_torch toy_batches 3) toy_model test_loader toy_state))
     \<le> dataset_len (toy_torch toy_batches 3) (dataset test_loader)"
    by (simp add: test_batches_def toy_torch_def toy_batches_def)
  have h2: "fst (test (toy_torch toy_batches 3) toy_model test_loader toy_loss toy_state) =
       Inr [''accuracy'' \<mapsto> PyFloat (1 / 3), ''loss'' \<mapsto> PyFloat (2 / 3),
            ''total_correct'' \<mapsto> PyInt 1]"
    by (simp add: test_def Let_def toy_torch_def toy_model_def toy_loss_def toy_batches_def
        toy_state_def effect_def eq_sum_def)
  show ?thesis
    using h1 h2 test_accuracy_range[OF h2] by blast
qed

section \<open>Properties of the script\<close>

subsection \<open>Auxiliary facts about the calls of a run\<close>


lemma schedule_append [simp]: "schedule (xs @ ys) = schedule xs @ schedule ys"
  by (simp add: schedule_def)

lemma training_calls_append [simp]:
  "training_calls (xs @ ys) = training_calls xs @ training_calls ys"
  by (simp add: training_calls_def)

lemma schedule_Nil [simp]: "schedule [] = []"
  by (simp add: schedule_def)

lemma schedule_Cons [simp]:
  "schedule (e # es) = (if is_schedule_event e then e # schedule es else schedule es)"
  by (simp add: schedule_def)

lemma training_calls_Nil [simp]: "training_calls [] = []"
  by (simp add: training_calls_def)

lemma training_calls_Cons [simp]:
  "training_calls (e # es) =
     (if is_training_event e then e # training_calls es else training_calls es)"
  by (simp add: training_calls_def)

lemma schedule_batches:
  "schedule (concat (map (\<lambda>b. batch_events cb) batches)) = []"
  by (induction batches) (simp_all add: batch_events_def split: option.splits)

lemma training_calls_batches:
  "training_calls (concat (map (\<lambda>b. batch_events (Some f)) batches)) =
     concat (replicate (length batches) [ZeroGrad, Backward, OptimizerStep, PostBatchCallback])"
  by (induction batches) (simp_all add: batch_events_def)

lemma filter_forward_loss:
  "set evs \<subseteq> {Forward, Criterion Sum} \<Longrightarrow> schedule evs = [] \<and> training_calls evs = []"
  by (induction evs) auto

text \<open>What one call of \<open>train\<close> with a callback, and one call of \<open>test\<close>, add to the calls.\<close>

lemma train_summary:
  "\<exists>evs k. trace (train T model loader optimizer criterion (Some f) s) = trace s @ evs
     \<and> schedule evs = [ModelTrain, Iterate loader]
     \<and> training_calls evs =
         concat (replicate k [ZeroGrad, Backward, OptimizerStep, PostBatchCallback])"
proof -
  let ?bs = "fst (iterate T loader (train_mode model (world s)))"
  let ?evs = "[ModelTrain, Iterate loader] @ concat (map (\<lambda>b. batch_events (Some f)) ?bs)"
  have "trace (train T model loader optimizer criterion (Some f) s) = trace s @ ?evs"
    by (simp add: trace_train)
  moreover have "schedule ?evs = [ModelTrain, Iterate loader]"
    by (simp add: schedule_batches)
  moreover have "training_calls ?evs =
      concat (replicate (length ?bs) [ZeroGrad, Backward, OptimizerStep, PostBatchCallback])"
    by (simp add: training_calls_batches)
  ultimately show ?thesis by blast
qed

lemma test_summary:
  "\<exists>evs. trace (snd (test T model loader criterion s)) = trace s @ evs
     \<and> schedule evs = [ModelEval, Iterate loader]
     \<and> training_calls evs = []"
proof -
  obtain evs where t: "trace (snd (test T model loader criterion s)) =
            trace s @ [ModelEval, NoGradEnter, Iterate loader] @ evs @ [NoGradExit]"
    and e: "set evs \<subseteq> {Forward, Criterion Sum}"
    using trace_test by blast
  let ?evs = "[ModelEval, NoGradEnter, Iterate loader] @ evs @ [NoGradExit]"
  have "schedule ?evs = [ModelEval, Iterate loader]"
    using filter_forward_loss[OF e] by simp
  moreover have "training_calls ?evs = []"
    using filter_forward_loss[OF e] by simp
  ultimately show ?thesis using t by blast
qed


lemma epoch_loop_summary:
  "\<exists>evs k. trace (snd (epoch_loop N epochs s)) = trace s @ evs
     \<and> (fst (epoch_loop N epochs s) = None \<longrightarrow>
          schedule evs = concat (replicate (length epochs)
             (train_pass train_loader @ eval_pass_of test_loader)))
     \<and> training_calls evs =
         concat (replicate k [ZeroGrad, Backward, OptimizerStep, PostBatchCallback])"
proof (induction epochs arbitrary: s)
  case Nil
  show ?case by (intro exI[of _ "[]"] exI[of _ 0]) simp
next
  case (Cons epoch later)
  define s1 where "s1 = train (nb_torch N) (sparse_cnn N) train_loader (sgd N) (nll_loss N)
               (Some post_batch) s"
  define s2 where "s2 = effect UpdateBoostStrength
      (module_apply (update_boost_strength (boost N))) s1"
  define r where "r = test (nb_torch N) (sparse_cnn N) test_loader (nll_loss N) s2"
  define s4 where "s4 = effect Print (\<lambda>w. w) (snd r)"
  obtain e1 k1 where t1: "trace s1 = trace s @ e1"
    and s1: "schedule e1 = [ModelTrain, Iterate train_loader]"
    and c1: "training_calls e1 =
        concat (replicate k1 [ZeroGrad, Backward, OptimizerStep, PostBatchCallback])"
    unfolding s1_def using train_summary by blast
  obtain e3 where t3: "trace (snd r) = trace s2 @ e3"
    and s3: "schedule e3 = [ModelEval, Iterate test_loader]"
    and c3: "training_calls e3 = []"
    unfolding r_def using test_summary by blast
  define e where "e = e1 @ [UpdateBoostStrength] @ e3"
  have t: "trace (snd r) = trace s @ e"
    by (simp add: t3 t1 s2_def e_def)
  have sch: "schedule e = train_pass train_loader @ eval_pass_of test_loader"
    by (simp add: e_def s1 s3 train_pass_def eval_pass_of_def)
  have tc: "training_calls e =
      concat (replicate k1 [ZeroGrad, Backward, OptimizerStep, PostBatchCallback])"
    by (simp add: e_def c1 c3)
  have step: "epoch_loop N (epoch # later) s =
      (case fst r of Inl x \<Rightarrow> (Some x, snd r) | Inr results \<Rightarrow> epoch_loop N later s4)"
    unfolding s1_def s2_def r_def s4_def by (simp add: Let_def)
  show ?case
  proof (cases "fst r")
    case (Inl x)
    then have el: "epoch_loop N (epoch # later) s = (Some x, snd r)"
      unfolding step by simp
    show ?thesis
      unfolding el by (intro exI[of _ e] exI[of _ k1]) (simp add: t tc)
  next
    case (Inr results)
    then have el: "epoch_loop N (epoch # later) s = epoch_loop N later s4"
      unfolding step by simp
    obtain e5 k5 where t5: "trace (snd (epoch_loop N later s4)) = trace s4 @ e5"
      and s5: "fst (epoch_loop N later s4) = None \<longrightarrow>
          schedule e5 = concat (replicate (length later)
             (train_pass train_loader @ eval_pass_of test_loader))"
      and c5: "training_calls e5 =
         concat (replicate k5 [ZeroGrad, Backward, OptimizerStep, PostBatchCallback])"
      using Cons.IH[of s4] by (elim exE conjE) (rule that)
    have t4: "trace s4 = trace s @ e @ [Print]"
      by (simp add: s4_def t)
    have a: "trace (snd (epoch_loop N (epoch # later) s)) = trace s @ (e @ [Print] @ e5)"
      unfolding el by (simp add: t5 t4)
    have b: "fst (epoch_loop N (epoch # later) s) = None \<longrightarrow>
          schedule (e @ [Print] @ e5) = concat (replicate (length (epoch # later))
             (train_pass train_loader @ eval_pass_of test_loader))"
      unfolding el using s5 by (simp add: sch)
    have c: "training_calls (e @ [Print] @ e5) =
         concat (replicate (k1 + k5) [ZeroGrad, Backward, OptimizerStep, PostBatchCallback])"
      by (simp add: tc c5 replicate_add)
    show ?thesis
      using a b c by (intro exI[of _ "e @ [Print] @ e5"] exI[of _ "k1 + k5"] conjI)
  qed
qed

lemma noise_loop_summary:
  "\<exists>evs. trace (snd (noise_loop N levels s)) = trace s @ evs
     \<and> (fst (noise_loop N levels s) = None \<longrightarrow>
          schedule evs = concat (map (\<lambda>noise. eval_pass_of (noise_loader noise)) levels))
     \<and> training_calls evs = []"
proof (induction levels arbitrary: s)
  case Nil
  show ?case by (intro exI[of _ "[]"]) simp
next
  case (Cons noise later)
  define r where "r = test (nb_torch N) (sparse_cnn N) (noise_loader noise) (nll_loss N) s"
  define s4 where "s4 = effect Print (\<lambda>w. w) (snd r)"
  obtain e3 where t3: "trace (snd r) = trace s @ e3"
    and s3: "schedule e3 = [ModelEval, Iterate (noise_loader noise)]"
    and c3: "training_calls e3 = []"
    unfolding r_def using test_summary by blast
  have step: "noise_loop N (noise # later) s =
      (case fst r of Inl x \<Rightarrow> (Some x, snd r) | Inr results \<Rightarrow> noise_loop N later s4)"
    unfolding r_def s4_def by (simp add: Let_def)
  show ?case
  proof (cases "fst r")
    case (Inl x)
    then have el: "noise_loop N (noise # later) s = (Some x, snd r)"
      unfolding step by simp
    show ?thesis
      unfolding el by (intro exI[of _ e3]) (simp add: t3 c3)
  next
    case (Inr results)
    then have el: "noise_loop N (noise # later) s = noise_loop N later s4"
      unfolding step by simp
    obtain e5 where t5: "trace (snd (noise_loop N later s4)) = trace s4 @ e5"
      and s5: "fst (noise_loop N later s4) = None \<longrightarrow>
          schedule e5 = concat (map (\<lambda>noise. eval_pass_of (noise_loader noise)) later)"
      and c5: "training_calls e5 = []"
      using Cons.IH[of s4] by (elim exE conjE) (rule that)
    have t4: "trace s4 = trace s @ e3 @ [Print]"
      by (simp add: s4_def t3)
    have a: "trace (snd (noise_loop N (noise # later) s)) = trace s @ (e3 @ [Print] @ e5)"
      unfolding el by (simp add: t5 t4)
    have b: "fst (noise_loop N (noise # later) s) = None \<longrightarrow>
          schedule (e3 @ [Print] @ e5) =
          concat (map (\<lambda>noise. eval_pass_of (noise_loader noise)) (noise # later))"
      unfolding el using s5 by (simp add: s3 eval_pass_of_def)
    have c: "training_calls (e3 @ [Print] @ e5) = []"
      by (simp add: c3 c5)
    show ?thesis
      using a b c by (intro exI[of _ "e3 @ [Print] @ e5"] conjI)
  qed
qed


lemma later_cells_summary:
  "\<exists>evs k. trace (snd (later_cells N s)) = trace s @ evs
     \<and> (fst (later_cells N s) = None \<longrightarrow>
          schedule evs =
            concat (replicate (EPOCHS - 1) (train_pass train_loader @ eval_pass_of test_loader))
            @ concat (map (\<lambda>noise. eval_pass_of (noise_loader noise)) NOISE_LEVELS))
     \<and> training_calls evs =
         concat (replicate k [ZeroGrad, Backward, OptimizerStep, PostBatchCallback])"
proof -
  define r where "r = epoch_loop N [1..<EPOCHS] s"
  obtain e5 k5 where t5: "trace (snd r) = trace s @ e5"
    and s5: "fst r = None \<longrightarrow>
        schedule e5 = concat (replicate (length [1..<EPOCHS])
           (train_pass train_loader @ eval_pass_of test_loader))"
    and c5: "training_calls e5 =
       concat (replicate k5 [ZeroGrad, Backward, OptimizerStep, PostBatchCallback])"
    using epoch_loop_summary[of N "[1..<EPOCHS]" s, folded r_def]
    by (elim exE conjE) (rule that)
  have step: "later_cells N s =
      (case fst r of Some x \<Rightarrow> (Some x, snd r) | None \<Rightarrow> noise_loop N NOISE_LEVELS (snd r))"
    unfolding r_def later_cells_def Let_def by (rule refl)
  show ?thesis
  proof (cases "fst r")
    case (Some x)
    then have el: "later_cells N s = (Some x, snd r)"
      unfolding step by simp
    show ?thesis
      unfolding el by (intro exI[of _ e5] exI[of _ k5]) (simp add: t5 c5)
  next
    case None
    then have el: "later_cells N s = noise_loop N NOISE_LEVELS (snd r)"
      unfolding step by simp
    obtain e7 where t7: "trace (snd (noise_loop N NOISE_LEVELS (snd r))) = trace (snd r) @ e7"
      and s7: "fst (noise_loop N NOISE_LEVELS (snd r)) = None \<longrightarrow>
        schedule e7 = concat (map (\<lambda>noise. eval_pass_of (noise_loader noise)) NOISE_LEVELS)"
      and c7: "training_calls e7 = []"
      using noise_loop_summary[of N NOISE_LEVELS "snd r"]
      by (elim exE conjE) (rule that)
    have a: "trace (snd (noise_loop N NOISE_LEVELS (snd r))) = trace s @ (e5 @ e7)"
      by (simp add: t7 t5)
    have b: "fst (noise_loop N NOISE_LEVELS (snd r)) = None \<longrightarrow>
        schedule (e5 @ e7) =
          concat (replicate (EPOCHS - 1) (train_pass train_loader @ eval_pass_of test_loader))
          @ concat (map (\<lambda>noise. eval_pass_of (noise_loader noise)) NOISE_LEVELS)"
      using s5 s7 None by simp
    have c: "training_calls (e5 @ e7) =
       concat (replicate k5 [ZeroGrad, Backward, OptimizerStep, PostBatchCallback])"
      by (simp add: c5 c7)
    show ?thesis
      unfolding el using a b c by (intro exI[of _ "e5 @ e7"] exI[of _ k5] conjI)
  qed
qed

lemma script_summary:
  "\<exists>evs k. trace (snd (script N s)) = trace s @ evs
     \<and> (fst (script N s) = None \<longrightarrow> schedule evs = script_schedule)
     \<and> training_calls evs =
         concat (replicate k [ZeroGrad, Backward, OptimizerStep, PostBatchCallback])"
proof -
  define s1 where "s1 = train (nb_torch N) (sparse_cnn N) first_loader (sgd N) (nll_loss N)
               (Some post_batch) s"
  define s2 where "s2 = effect UpdateBoostStrength
      (module_apply (update_boost_strength (boost N))) s1"
  define r where "r = test (nb_torch N) (sparse_cnn N) test_loader (nll_loss N) s2"
  obtain e1 k1 where t1: "trace s1 = trace s @ e1"
    and s1: "schedule e1 = [ModelTrain, Iterate first_loader]"
    and c1: "training_calls e1 =
        concat (replicate k1 [ZeroGrad, Backward, OptimizerStep, PostBatchCallback])"
    unfolding s1_def using train_summary by blast
  obtain e3 where t3: "trace (snd r) = trace s2 @ e3"
    and s3: "schedule e3 = [ModelEval, Iterate test_loader]"
    and c3: "training_calls e3 = []"
    unfolding r_def using test_summary by blast
  define e where "e = e1 @ [UpdateBoostStrength] @ e3"
  have t: "trace (snd r) = trace s @ e"
    by (simp add: t3 t1 s2_def e_def)
  have sch: "schedule e = train_pass first_loader @ eval_pass_of test_loader"
    by (simp add: e_def s1 s3 train_pass_def eval_pass_of_def)
  have tc: "training_calls e =
      concat (replicate k1 [ZeroGrad, Backward, OptimizerStep, PostBatchCallback])"
    by (simp add: e_def c1 c3)
  have step: "script N s =
      (case fst r of Inl x \<Rightarrow> (Some x, snd r) | Inr results \<Rightarrow> later_cells N (snd r))"
    unfolding s1_def s2_def r_def script_def Let_def by (rule refl)
  show ?thesis
  proof (cases "fst r")
    case (Inl x)
    then have el: "script N s = (Some x, snd r)"
      unfolding step by simp
    show ?thesis
      unfolding el by (intro exI[of _ e] exI[of _ k1]) (simp add: t tc)
  next
    case (Inr results)
    then have el: "script N s = later_cells N (snd r)"
      unfolding step by simp
    obtain e5 k5 where t5: "trace (snd (later_cells N (snd r))) = trace (snd r) @ e5"
      and s5: "fst (later_cells N (snd r)) = None \<longrightarrow>
          schedule e5 =
            concat (replicate (EPOCHS - 1) (train_pass train_loader @ eval_pass_of test_loader))
            @ concat (map (\<lambda>noise. eval_pass_of (noise_loader noise)) NOISE_LEVELS)"
      and c5: "training_calls e5 =
         concat (replicate k5 [ZeroGrad, Backward, OptimizerStep, PostBatchCallback])"
      using later_cells_summary[of N "snd r"]
      by (elim exE conjE) (rule that)
    have a: "trace (snd (later_cells N (snd r))) = trace s @ (e @ e5)"
      by (simp add: t5 t)
    have b: "fst (later_cells N (snd r)) = None \<longrightarrow> schedule (e @ e5) = script_schedule"
      using s5 by (simp add: sch script_schedule_def)
    have c: "training_calls (e @ e5) =
       concat (replicate (k1 + k5) [ZeroGrad, Backward, OptimizerStep, PostBatchCallback])"
      by (simp add: tc c5 replicate_add)
    show ?thesis
      unfolding el using a b c by (intro exI[of _ "e @ e5"] exI[of _ "k1 + k5"] conjI)
  qed
qed

text \<open>When no evaluation raises, the script runs to its end.\<close>

lemma eval_pass_well_shaped:
  assumes "\<forall>d t w. (d, t) \<in> set batches \<longrightarrow>
             length (argmax_dim1 T (fst (call model d w))) = length t"
  shows "well_shaped (eval_pass T model criterion batches w)"
  using assms
proof (induction batches arbitrary: w)
  case Nil
  then show ?case by (simp add: well_shaped_def)
next
  case (Cons b batches)
  obtain data target where b: "b = (data, target)" by (cases b)
  have "well_shaped (eval_pass T model criterion batches (snd (call model data w)))"
    using Cons.prems by (intro Cons.IH) auto
  moreover have "length (argmax_dim1 T (fst (call model data w))) = length target"
    using Cons.prems by (simp add: b)
  ultimately show ?case by (simp add: b well_shaped_def Let_def)
qed

lemma test_completes:
  assumes "0 < dataset_len T (dataset loader)"
    and "\<forall>ld w d t w'. (d, t) \<in> set (fst (iterate T ld w)) \<longrightarrow>
            length (argmax_dim1 T (fst (call model d w'))) = length t"
  shows "\<exists>results. fst (test T model loader criterion s) = Inr results"
proof -
  have "well_shaped (test_pass T model loader criterion s)"
    unfolding test_pass_def test_batches_def
    using assms(2) by (intro eval_pass_well_shaped) blast
  from test_returns[OF assms(1) this] show ?thesis by blast
qed

lemma epoch_loop_completes:
  assumes "0 < dataset_len (nb_torch N) test_dataset"
    and "\<forall>ld w d t w'. (d, t) \<in> set (fst (iterate (nb_torch N) ld w)) \<longrightarrow>
            length (argmax_dim1 (nb_torch N) (fst (call (sparse_cnn N) d w'))) = length t"
  shows "fst (epoch_loop N epochs s) = None"
proof (induction epochs arbitrary: s)
  case Nil
  then show ?case by simp
next
  case (Cons epoch later)
  define s2 where "s2 = effect UpdateBoostStrength
      (module_apply (update_boost_strength (boost N)))
      (train (nb_torch N) (sparse_cnn N) train_loader (sgd N) (nll_loss N)
               (Some post_batch) s)"
  have "0 < dataset_len (nb_torch N) (dataset test_loader)"
    using assms(1) by (simp add: test_loader_def)
  from test_completes[OF this assms(2)]
  obtain results where "fst (test (nb_torch N) (sparse_cnn N) test_loader (nll_loss N) s2)
      = Inr results" by blast
  then show ?case
    unfolding s2_def by (simp add: Let_def Cons.IH)
qed

lemma noise_loop_completes:
  assumes "\<forall>noise \<in> set levels. 0 < dataset_len (nb_torch N) (noise_dataset noise)"
    and "\<forall>ld w d t w'. (d, t) \<in> set (fst (iterate (nb_torch N) ld w)) \<longrightarrow>
            length (argmax_dim1 (nb_torch N) (fst (call (sparse_cnn N) d w'))) = length t"
  shows "fst (noise_loop N levels s) = None"
  using assms(1)
proof (induction levels arbitrary: s)
  case Nil
  then show ?case by simp
next
  case (Cons noise later)
  have "0 < dataset_len (nb_torch N) (dataset (noise_loader noise))"
    using Cons.prems by (simp add: noise_loader_def)
  from test_completes[OF this assms(2)]
  obtain results where "fst (test (nb_torch N) (sparse_cnn N) (noise_loader noise)
      (nll_loss N) s) = Inr results" by blast
  then show ?case
    using Cons.prems by (simp add: Let_def Cons.IH)
qed

lemma script_completes:
  assumes "0 < dataset_len (nb_torch N) test_dataset"
    and "\<forall>noise \<in> set NOISE_LEVELS. 0 < dataset_len (nb_torch N) (noise_dataset noise)"
    and "\<forall>ld w d t w'. (d, t) \<in> set (fst (iterate (nb_torch N) ld w)) \<longrightarrow>
            length (argmax_dim1 (nb_torch N) (fst (call (sparse_cnn N) d w'))) = length t"
  shows "fst (script N s) = None"
proof -
  define s2 where "s2 = effect UpdateBoostStrength
      (module_apply (update_boost_strength (boost N)))
      (train (nb_torch N) (sparse_cnn N) first_loader (sgd N) (nll_loss N)
               (Some post_batch) s)"
  have "0 < dataset_len (nb_torch N) (dataset test_loader)"
    using assms(1) by (simp add: test_loader_def)
  from test_completes[OF this assms(3)]
  obtain results where "fst (test (nb_torch N) (sparse_cnn N) test_loader (nll_loss N) s2)
      = Inr results" by blast
  then show ?thesis
    unfolding s2_def script_def later_cells_def
    by (simp add: Let_def epoch_loop_completes[OF assms(1,3)]
        noise_loop_completes[OF assms(2,3)])
qed

subsection \<open>Auxiliary facts about the sparse layers\<close>


lemma new_events_append: "trace s' = trace s @ evs \<Longrightarrow> new_events s s' = evs"
  by (simp add: new_events_def)

lemma sparse_of_rezero_weights: "sparse_of (rezero_weights m) = map_option rezero (sparse_of m)"
  by (cases m) simp_all

lemma sparse_of_update_boost_strength: "sparse_of (update_boost_strength b m) = sparse_of m"
  by (cases m) simp_all

lemma sparse_layers_post_batch: "sparse_layers (post_batch w) = map rezero (sparse_layers w)"
proof -
  have "List.map_filter sparse_of (map rezero_weights ms) =
      map rezero (List.map_filter sparse_of ms)" for ms :: "'a layer list"
    by (induction ms) (auto simp: List.map_filter_simps sparse_of_rezero_weights split: option.splits)
  then show ?thesis
    by (simp add: sparse_layers_def post_batch_def module_apply_def)
qed

lemma sparse_layers_boost:
  "sparse_layers (module_apply (update_boost_strength b) w) = sparse_layers w"
proof -
  have "List.map_filter sparse_of (map (update_boost_strength b) ms) =
      List.map_filter sparse_of ms" for ms :: "'a layer list"
    by (induction ms)
       (auto simp: List.map_filter_simps sparse_of_update_boost_strength split: option.splits)
  then show ?thesis
    by (simp add: sparse_layers_def module_apply_def)
qed

lemma rezero_fields [simp]:
  "zero_mask (rezero l) = zero_mask l" "length (weight (rezero l)) = length (weight l)"
  by (simp_all add: rezero_def)

lemma rezero_nth:
  "j < length (weight l) \<Longrightarrow>
   weight (rezero l) ! j = (if j \<in> set (zero_mask l) then 0 else weight l ! j)"
  by (simp add: rezero_def nth_fold_update)

lemma masked_zero_rezero: "masked_zero (rezero l)"
  by (simp add: masked_zero_def list_all_iff rezero_nth)

lemma sparsity_post_batch: "sparsity (post_batch w) = sparsity w"
  by (simp add: sparsity_def sparse_layers_post_batch comp_def)

lemma sparsity_boost: "sparsity (module_apply (update_boost_strength b) w) = sparsity w"
  by (simp add: sparsity_def sparse_layers_boost)

lemma sparsity_held_post_batch: "sparsity_held (post_batch w)"
  by (simp add: sparsity_held_def sparse_layers_post_batch list_all_iff masked_zero_rezero)

text \<open>What no step of a training pass writes, the pass does not write.\<close>

lemma train_batch_frame:
  assumes "\<forall>w. obs (zero_grad optimizer w) = obs w"
    and "\<forall>w. obs (step optimizer w) = obs w"
    and "\<forall>d w. obs (snd (call model d w)) = obs w"
    and "\<forall>l w. obs (backward T l w) = obs w"
    and "\<forall>w. obs (f w) = obs w"
  shows "obs (world (train_batch T model optimizer criterion (Some f) batch s)) = obs (world s)"
  using assms by (simp add: world_train_batch)

lemma train_frame:
  assumes "\<forall>w. obs (train_mode model w) = obs w"
    and "\<forall>w. obs (snd (iterate T loader w)) = obs w"
    and "\<forall>w. obs (zero_grad optimizer w) = obs w"
    and "\<forall>w. obs (step optimizer w) = obs w"
    and "\<forall>d w. obs (snd (call model d w)) = obs w"
    and "\<forall>l w. obs (backward T l w) = obs w"
    and "\<forall>w. obs (f w) = obs w"
  shows "obs (world (train T model loader optimizer criterion (Some f) s)) = obs (world s)"
proof -
  have "obs (world (fold (train_batch T model optimizer criterion (Some f)) batches s')) =
      obs (world s')" for batches s'
    by (induction batches arbitrary: s') (simp_all add: train_batch_frame[OF assms(3-7)])
  then show ?thesis
    using assms(1,2) by (simp add: train_def Let_def)
qed


lemma train_keeps:
  assumes "framework_keeps obs N" and "\<forall>w. obs (f w) = obs w"
  shows "obs (world (train (nb_torch N) (sparse_cnn N) loader (sgd N) (nll_loss N) (Some f) s))
           = obs (world s)"
  using assms by (intro train_frame) (simp_all add: framework_keeps_def)

lemma test_keeps:
  assumes "framework_keeps obs N"
  shows "obs (world (snd (test (nb_torch N) (sparse_cnn N) loader (nll_loss N) s)))
           = obs (world s)"
  using assms by (intro test_frame) (simp_all add: framework_keeps_def)

lemma epoch_loop_keeps:
  assumes "framework_keeps sparsity N"
  shows "sparsity (world (snd (epoch_loop N epochs s))) = sparsity (world s)"
proof (induction epochs arbitrary: s)
  case Nil
  then show ?case by simp
next
  case (Cons epoch later)
  define s2 where "s2 = effect UpdateBoostStrength
      (module_apply (update_boost_strength (boost N)))
      (train (nb_torch N) (sparse_cnn N) train_loader (sgd N) (nll_loss N)
               (Some post_batch) s)"
  define r where "r = test (nb_torch N) (sparse_cnn N) test_loader (nll_loss N) s2"
  have s2: "sparsity (world s2) = sparsity (world s)"
    unfolding s2_def
    by (simp add: sparsity_boost train_keeps[OF assms] sparsity_post_batch)
  have r: "sparsity (world (snd r)) = sparsity (world s)"
    unfolding r_def by (simp add: test_keeps[OF assms] s2)
  have step: "epoch_loop N (epoch # later) s =
      (case fst r of Inl x \<Rightarrow> (Some x, snd r)
       | Inr results \<Rightarrow> epoch_loop N later (effect Print (\<lambda>w. w) (snd r)))"
    unfolding s2_def r_def by (simp add: Let_def)
  show ?case
    unfolding step by (cases "fst r") (simp_all add: r Cons.IH)
qed

lemma noise_loop_keeps:
  assumes "framework_keeps sparsity N"
  shows "sparsity (world (snd (noise_loop N levels s))) = sparsity (world s)"
proof (induction levels arbitrary: s)
  case Nil
  then show ?case by simp
next
  case (Cons noise later)
  define r where "r = test (nb_torch N) (sparse_cnn N) (noise_loader noise) (nll_loss N) s"
  have r: "sparsity (world (snd r)) = sparsity (world s)"
    unfolding r_def by (simp add: test_keeps[OF assms])
  have step: "noise_loop N (noise # later) s =
      (case fst r of Inl x \<Rightarrow> (Some x, snd r)
       | Inr results \<Rightarrow> noise_loop N later (effect Print (\<lambda>w. w) (snd r)))"
    unfolding r_def by (simp add: Let_def)
  show ?case
    unfolding step by (cases "fst r") (simp_all add: r Cons.IH)
qed

lemma script_keeps:
  assumes "framework_keeps sparsity N"
  shows "sparsity (world (snd (script N s))) = sparsity (world s)"
proof -
  define s2 where "s2 = effect UpdateBoostStrength
      (module_apply (update_boost_strength (boost N)))
      (train (nb_torch N) (sparse_cnn N) first_loader (sgd N) (nll_loss N)
               (Some post_batch) s)"
  define r where "r = test (nb_torch N) (sparse_cnn N) test_loader (nll_loss N) s2"
  have s2: "sparsity (world s2) = sparsity (world s)"
    unfolding s2_def
    by (simp add: sparsity_boost train_keeps[OF assms] sparsity_post_batch)
  have r: "sparsity (world (snd r)) = sparsity (world s)"
    unfolding r_def by (simp add: test_keeps[OF assms] s2)
  have lc: "sparsity (world (snd (later_cells N s'))) = sparsity (world s')" for s'
    unfolding later_cells_def Let_def
    by (cases "fst (epoch_loop N [1..<EPOCHS] s')")
       (simp_all add: epoch_loop_keeps[OF assms] noise_loop_keeps[OF assms])
  have step: "script N s =
      (case fst r of Inl x \<Rightarrow> (Some x, snd r) | Inr results \<Rightarrow> later_cells N (snd r))"
    unfolding s2_def r_def script_def Let_def by (rule refl)
  show ?thesis
    unfolding step by (cases "fst r") (simp_all add: r lc)
qed


lemma toy_step_sparsity:
  "sparsity (w\<lparr>layers := map toy_step_layer (layers w), rest := r\<rparr>) = sparsity w"
proof -
  have "map (\<lambda>l. (zero_mask l, length (weight l)))
          (List.map_filter sparse_of (map toy_step_layer ms)) =
        map (\<lambda>l. (zero_mask l, length (weight l))) (List.map_filter sparse_of ms)"
    for ms :: "real layer list"
  proof (induction ms)
    case Nil
    then show ?case by simp
  next
    case (Cons m ms)
    then show ?case by (cases m) (simp_all add: List.map_filter_simps)
  qed
  then show ?thesis by (simp add: sparsity_def sparse_layers_def)
qed

lemma toy_keeps_sparsity: "framework_keeps sparsity (toy_notebook batches n)"
  by (simp add: framework_keeps_def toy_notebook_def toy_model_def toy_sgd_def toy_torch_def
      toy_step_sparsity)
     (simp add: sparsity_def sparse_layers_def)

text \<open>
  A training pass given \<open>post_batch\<close> ends with every masked entry at zero when it has a
  batch, or when it starts so; evaluation and the boost update keep it so.
\<close>

lemma fold_train_batch_held:
  "batches \<noteq> [] \<or> sparsity_held (world s) \<Longrightarrow>
   sparsity_held (world (fold (train_batch T model optimizer criterion (Some post_batch))
      batches s))"
proof (induction batches arbitrary: s)
  case Nil
  then show ?case by simp
next
  case (Cons b batches)
  have "sparsity_held (world (train_batch T model optimizer criterion (Some post_batch) b s))"
    by (simp add: world_train_batch sparsity_held_post_batch)
  then show ?case by (simp add: Cons.IH)
qed

lemma train_held:
  assumes "evaluation_preserves sparsity_held N"
    and "sparsity_held (world s)
         \<or> fst (iterate (nb_torch N) loader (train_mode (sparse_cnn N) (world s))) \<noteq> []"
  shows "sparsity_held (world (train (nb_torch N) (sparse_cnn N) loader (sgd N) (nll_loss N)
           (Some post_batch) s))"
proof -
  have "sparsity_held (world s) \<Longrightarrow>
      sparsity_held (snd (iterate (nb_torch N) loader (train_mode (sparse_cnn N) (world s))))"
    using assms(1) by (simp add: evaluation_preserves_def)
  then show ?thesis
    using assms(2) unfolding train_def Let_def
    by (intro fold_train_batch_held) auto
qed

lemma test_loop_preserves:
  assumes "\<forall>d w. P w \<longrightarrow> P (snd (call model d w))" and "P (world s)"
  shows "P (world (snd (test_loop T model criterion batches acc s)))"
  using assms(2)
proof (induction batches arbitrary: acc s)
  case Nil
  then show ?case by simp
next
  case (Cons b batches)
  obtain data target where b: "b = (data, target)" by (cases b)
  obtain loss tc where acc: "acc = (loss, tc)" by (cases acc)
  have p: "P (snd (call model data (world s)))"
    using assms(1) Cons.prems by simp
  show ?case
    by (cases "eq_sum (argmax_dim1 T (fst (call model data (world s)))) target")
       (simp_all add: b acc Let_def Cons.IH p)
qed

lemma test_preserves:
  assumes "evaluation_preserves P N" and "P (world s)"
  shows "P (world (snd (test (nb_torch N) (sparse_cnn N) loader (nll_loss N) s)))"
proof -
  let ?s3 = "effect (Iterate loader) (\<lambda>w. snd (iterate (nb_torch N) loader w))
            (effect NoGradEnter (no_grad_enter (nb_torch N))
              (effect ModelEval (eval_mode (sparse_cnn N)) s))"
  have c: "\<forall>d w. P w \<longrightarrow> P (snd (call (sparse_cnn N) d w))"
    using assms(1) by (simp add: evaluation_preserves_def)
  have "P (world ?s3)"
    using assms by (simp add: evaluation_preserves_def)
  with c have "P (world (snd (test_loop (nb_torch N) (sparse_cnn N) (nll_loss N)
      (test_batches (nb_torch N) (sparse_cnn N) loader s) (0, 0) ?s3)))"
    by (rule test_loop_preserves)
  then show ?thesis
    using assms(1) by (simp add: snd_test evaluation_preserves_def)
qed

lemma sparsity_held_boost:
  "sparsity_held (module_apply (update_boost_strength b) w) = sparsity_held w"
  by (simp add: sparsity_held_def sparse_layers_boost)

lemma epoch_loop_held:
  assumes "evaluation_preserves sparsity_held N" and "sparsity_held (world s)"
  shows "sparsity_held (world (snd (epoch_loop N epochs s)))"
  using assms(2)
proof (induction epochs arbitrary: s)
  case Nil
  then show ?case by simp
next
  case (Cons epoch later)
  define s2 where "s2 = effect UpdateBoostStrength
      (module_apply (update_boost_strength (boost N)))
      (train (nb_torch N) (sparse_cnn N) train_loader (sgd N) (nll_loss N)
               (Some post_batch) s)"
  define r where "r = test (nb_torch N) (sparse_cnn N) test_loader (nll_loss N) s2"
  have s2: "sparsity_held (world s2)"
    unfolding s2_def using Cons.prems
    by (simp add: sparsity_held_boost train_held[OF assms(1)])
  have r: "sparsity_held (world (snd r))"
    unfolding r_def using assms(1) s2 by (rule test_preserves)
  have step: "epoch_loop N (epoch # later) s =
      (case fst r of Inl x \<Rightarrow> (Some x, snd r)
       | Inr results \<Rightarrow> epoch_loop N later (effect Print (\<lambda>w. w) (snd r)))"
    unfolding s2_def r_def by (simp add: Let_def)
  show ?case
    unfolding step by (cases "fst r") (simp_all add: r Cons.IH)
qed

lemma noise_loop_held:
  assumes "evaluation_preserves sparsity_held N" and "sparsity_held (world s)"
  shows "sparsity_held (world (snd (noise_loop N levels s)))"
  using assms(2)
proof (induction levels arbitrary: s)
  case Nil
  then show ?case by simp
next
  case (Cons noise later)
  define r where "r = test (nb_torch N) (sparse_cnn N) (noise_loader noise) (nll_loss N) s"
  have r: "sparsity_held (world (snd r))"
    unfolding r_def using assms(1) Cons.prems by (rule test_preserves)
  have step: "noise_loop N (noise # later) s =
      (case fst r of Inl x \<Rightarrow> (Some x, snd r)
       | Inr results \<Rightarrow> noise_loop N later (effect Print (\<lambda>w. w) (snd r)))"
    unfolding r_def by (simp add: Let_def)
  show ?case
    unfolding step by (cases "fst r") (simp_all add: r Cons.IH)
qed

lemma script_held:
  assumes "evaluation_preserves sparsity_held N"
    and "sparsity_held (world s)
         \<or> fst (iterate (nb_torch N) first_loader (train_mode (sparse_cnn N) (world s))) \<noteq> []"
  shows "sparsity_held (world (snd (script N s)))"
proof -
  define s2 where "s2 = effect UpdateBoostStrength
      (module_apply (update_boost_strength (boost N)))
      (train (nb_torch N) (sparse_cnn N) first_loader (sgd N) (nll_loss N)
               (Some post_batch) s)"
  define r where "r = test (nb_torch N) (sparse_cnn N) test_loader (nll_loss N) s2"
  have s2: "sparsity_held (world s2)"
    unfolding s2_def using train_held[OF assms]
    by (simp add: sparsity_held_boost)
  have r: "sparsity_held (world (snd r))"
    unfolding r_def using assms(1) s2 by (rule test_preserves)
  have lc: "sparsity_held (world (snd (later_cells N s')))" if "sparsity_held (world s')" for s'
    unfolding later_cells_def Let_def
    using epoch_loop_held[OF assms(1) that, of "[1..<EPOCHS]"]
    by (cases "fst (epoch_loop N [1..<EPOCHS] s')")
       (simp_all add: noise_loop_held[OF assms(1)])
  have step: "script N s =
      (case fst r of Inl x \<Rightarrow> (Some x, snd r) | Inr results \<Rightarrow> later_cells N (snd r))"
    unfolding s2_def r_def script_def Let_def by (rule refl)
  show ?thesis
    unfolding step by (cases "fst r") (simp_all add: r lc)
qed

text \<open>When the masked entries are zero, the zero entries are at least as many.\<close>

lemma masked_entries_le:
  assumes "masked_zero l"
  shows "masked_entries l \<le> zero_entries l"
proof -
  let ?n = "length (weight l)"
  have a: "masked_entries l = card {i \<in> set (zero_mask l). i < ?n}"
    by (simp add: masked_entries_def length_remdups_card_conv)
  have b: "zero_entries l = card {i. i < ?n \<and> weight l ! i = 0}"
    by (simp add: zero_entries_def length_filter_conv_card)
  have "{i \<in> set (zero_mask l). i < ?n} \<subseteq> {i. i < ?n \<and> weight l ! i = 0}"
    using assms by (auto simp: masked_zero_def list_all_iff)
  then have "card {i \<in> set (zero_mask l). i < ?n} \<le> card {i. i < ?n \<and> weight l ! i = 0}"
    by (intro card_mono) simp_all
  then show ?thesis by (simp only: a b)
qed

lemma toy_preserves: "evaluation_preserves P (toy_notebook batches n)" if
  "\<And>w r. P (w\<lparr>rest := r\<rparr>) = P w" for P :: "toy_world \<Rightarrow> bool"
  using that
  by (simp add: evaluation_preserves_def toy_notebook_def toy_model_def toy_torch_def)

lemma toy_preserves_held: "evaluation_preserves sparsity_held (toy_notebook batches n)"
  by (rule toy_preserves) (simp add: sparsity_held_def sparse_layers_def)

lemma toy_script_hyps:
  "0 < dataset_len (nb_torch (toy_notebook toy_batches 3)) test_dataset"
  "\<forall>noise \<in> set NOISE_LEVELS.
      0 < dataset_len (nb_torch (toy_notebook toy_batches 3)) (noise_dataset noise)"
  "\<forall>ld w d t w'. (d, t) \<in> set (fst (iterate (nb_torch (toy_notebook toy_batches 3)) ld w)) \<longrightarrow>
      length (argmax_dim1 (nb_torch (toy_notebook toy_batches 3))
        (fst (call (sparse_cnn (toy_notebook toy_batches 3)) d w'))) = length t"
  by (auto simp: toy_notebook_def toy_torch_def toy_model_def toy_batches_def)

subsection \<open>The schedule of the script\<close>

text \<open>
  Claim C3: the script's overall schedule is exactly one first-epoch training pass with
  batch size \<open>FIRST_EPOCH_BATCH_SIZE = 4\<close>, followed by \<open>EPOCHS - 1\<close> further training
  epochs with batch size \<open>TRAIN_BATCH_SIZE = 64\<close> (\<open>EPOCHS = 10\<close> training epochs in
  total), with \<open>update_boost_strength\<close> applied to the model after each epoch, and a final
  evaluation run once on the clean test set and once per noise level in \<open>NOISE_LEVELS\<close>.
  When the datasets evaluated are not empty and the model gives one prediction per
  label, the script runs to its end without an exception and its schedule is
  \<open>script_schedule\<close>: a training pass on \<open>first_loader\<close> with its boost update, then
  \<open>EPOCHS - 1\<close> training passes on \<open>train_loader\<close>, each with its boost update, ten
  training passes and ten boost updates in all. Each training pass is followed by an
  evaluation on the clean test set; after the last training pass comes the final
  evaluation, once on the clean test set and once on the noisy test set of each level.
\<close>

theorem script_runs_schedule:
  assumes "0 < dataset_len (nb_torch N) test_dataset"
    and "\<forall>noise \<in> set NOISE_LEVELS. 0 < dataset_len (nb_torch N) (noise_dataset noise)"
    and "\<forall>ld w d t w'. (d, t) \<in> set (fst (iterate (nb_torch N) ld w)) \<longrightarrow>
            length (argmax_dim1 (nb_torch N) (fst (call (sparse_cnn N) d w'))) = length t"
  shows "fst (script N s) = None
       \<and> schedule (new_events s (snd (script N s))) = script_schedule
       \<and> script_schedule =
           train_pass first_loader @ eval_pass_of test_loader
           @ concat (replicate (EPOCHS - 2)
               (train_pass train_loader @ eval_pass_of test_loader))
           @ train_pass train_loader @ final_evaluation
       \<and> final_evaluation =
           [ModelEval, Iterate test_loader,
            ModelEval, Iterate (noise_loader (5 / 100)),
            ModelEval, Iterate (noise_loader (10 / 100)),
            ModelEval, Iterate (noise_loader (15 / 100)),
            ModelEval, Iterate (noise_loader (20 / 100)),
            ModelEval, Iterate (noise_loader (25 / 100))]
       \<and> train_pass first_loader = [ModelTrain, Iterate first_loader, UpdateBoostStrength]
       \<and> train_pass train_loader = [ModelTrain, Iterate train_loader, UpdateBoostStrength]
       \<and> batch_size first_loader = 4 \<and> batch_size train_loader = 64
       \<and> transforms (dataset test_loader) = normalize
       \<and> transforms (dataset (noise_loader noise)) = noise_transform noise
       \<and> EPOCHS = 10
       \<and> count_list script_schedule ModelTrain = EPOCHS
       \<and> count_list script_schedule UpdateBoostStrength = EPOCHS"
proof -
  have ok: "fst (script N s) = None"
    using assms by (rule script_completes)
  obtain evs k where t: "trace (snd (script N s)) = trace s @ evs"
    and sch: "fst (script N s) = None \<longrightarrow> schedule evs = script_schedule"
    using script_summary[of N s] by (elim exE conjE) (rule that)
  have a: "schedule (new_events s (snd (script N s))) = script_schedule"
    using sch ok by (simp add: new_events_append[OF t])
  have snoc: "concat (replicate (Suc n) xs) = concat (replicate n xs) @ xs"
    for n and xs :: "event list"
    by (induction n) simp_all
  have "EPOCHS - 1 = Suc (EPOCHS - 2)"
    by (simp add: EPOCHS_def)
  then have b: "script_schedule =
           train_pass first_loader @ eval_pass_of test_loader
           @ concat (replicate (EPOCHS - 2)
               (train_pass train_loader @ eval_pass_of test_loader))
           @ train_pass train_loader @ final_evaluation"
    by (simp only: script_schedule_def final_evaluation_def snoc append_assoc)
  have c: "final_evaluation =
           [ModelEval, Iterate test_loader,
            ModelEval, Iterate (noise_loader (5 / 100)),
            ModelEval, Iterate (noise_loader (10 / 100)),
            ModelEval, Iterate (noise_loader (15 / 100)),
            ModelEval, Iterate (noise_loader (20 / 100)),
            ModelEval, Iterate (noise_loader (25 / 100))]"
    by (simp add: final_evaluation_def eval_pass_of_def NOISE_LEVELS_def)
  have cnt: "count_list (concat (replicate n xs)) e = n * count_list xs e"
    for n and xs :: "event list" and e
    by (induction n) simp_all
  have d: "count_list script_schedule ModelTrain = EPOCHS"
    by (simp add: script_schedule_def cnt train_pass_def eval_pass_of_def NOISE_LEVELS_def
        EPOCHS_def)
  have e: "count_list script_schedule UpdateBoostStrength = EPOCHS"
    by (simp add: script_schedule_def cnt train_pass_def eval_pass_of_def NOISE_LEVELS_def
        EPOCHS_def)
  show ?thesis
    using ok a b c d e
    by (simp add: train_pass_def first_loader_def train_loader_def test_loader_def
        test_dataset_def noise_loader_def noise_dataset_def
        FIRST_EPOCH_BATCH_SIZE_def TRAIN_BATCH_SIZE_def EPOCHS_def)
qed

theorem script_runs_schedule_witness:
  "0 < dataset_len (nb_torch (toy_notebook toy_batches 3)) test_dataset
   \<and> list_all (\<lambda>noise. 0 < dataset_len (nb_torch (toy_notebook toy_batches 3))
         (noise_dataset noise)) NOISE_LEVELS
   \<and> fst (script (toy_notebook toy_batches 3) toy_state) = None
   \<and> schedule (new_events toy_state (snd (script (toy_notebook toy_batches 3) toy_state)))
       = script_schedule"
  using toy_script_hyps
    script_runs_schedule[where N = "toy_notebook toy_batches 3" and s = toy_state,
      OF toy_script_hyps]
  by (simp add: list_all_iff)

subsection \<open>The sparsity of the layers during training\<close>

text \<open>
  Claim C5, as stated: throughout training, in the first-epoch pass and in every later
  epoch, after every batch the callback \<open>post_batch\<close> applies \<open>rezero_weights\<close> to every
  module of the model, so that the weight entries zeroed by the sparsity mask are held at
  zero: the fraction of zero entries in each sparse layer stays fixed over the whole
  training run. The last part fails. A sparse layer with weights \<open>[0, 0, 3]\<close> and the
  second entry under the mask has two zero entries; after one batch given \<open>post_batch\<close>,
  and after the whole first-epoch pass, and at the end of the script, the masked entry
  is zero and the entry outside the mask is not, so one zero entry is left: the fraction
  goes from \<open>2/3\<close> to \<open>1/3\<close>. And when the loaders yield no batch the callback never
  runs: a masked entry that is not zero at the start is not zero at the end of the
  script.
\<close>

theorem post_batch_zero_entries_counterexample:
  "sparse_layers (world zero_state) = [\<lparr>weight = [0, 0, 3], zero_mask = [1]\<rparr>]
   \<and> sparsity_held (world zero_state)
   \<and> map zero_fraction (sparse_layers (world zero_state)) = [2 / 3]
   \<and> sparse_layers (world (train_batch (nb_torch (toy_notebook toy_batches 3))
        (sparse_cnn (toy_notebook toy_batches 3)) (sgd (toy_notebook toy_batches 3))
        (nll_loss (toy_notebook toy_batches 3)) (Some post_batch) ([1, 2], [1, 0]) zero_state))
       = [\<lparr>weight = [1, 0, 4], zero_mask = [1]\<rparr>]
   \<and> map zero_fraction (sparse_layers (world (train_batch (nb_torch (toy_notebook toy_batches 3))
        (sparse_cnn (toy_notebook toy_batches 3)) (sgd (toy_notebook toy_batches 3))
        (nll_loss (toy_notebook toy_batches 3)) (Some post_batch) ([1, 2], [1, 0]) zero_state)))
       = [1 / 3]
   \<and> sparse_layers (world (train (nb_torch (toy_notebook toy_batches 3))
        (sparse_cnn (toy_notebook toy_batches 3)) first_loader (sgd (toy_notebook toy_batches 3))
        (nll_loss (toy_notebook toy_batches 3)) (Some post_batch) zero_state))
       = [\<lparr>weight = [2, 0, 5], zero_mask = [1]\<rparr>]
   \<and> fst (script (toy_notebook toy_batches 3) zero_state) = None
   \<and> sparse_layers (world (snd (script (toy_notebook toy_batches 3) zero_state)))
       = [\<lparr>weight = [20, 0, 23], zero_mask = [1]\<rparr>]
   \<and> map zero_fraction
         (sparse_layers (world (snd (script (toy_notebook toy_batches 3) zero_state))))
       = [1 / 3]
   \<and> fst (script (toy_notebook [] 3) unheld_state) = None
   \<and> sparse_layers (world unheld_state) = [\<lparr>weight = [5, 7], zero_mask = [0]\<rparr>]
   \<and> sparse_layers (world (snd (script (toy_notebook [] 3) unheld_state)))
       = [\<lparr>weight = [5, 7], zero_mask = [0]\<rparr>]
   \<and> \<not> sparsity_held (world (snd (script (toy_notebook [] 3) unheld_state)))"
proof -
  have a: "sparse_layers (world zero_state) = [\<lparr>weight = [0, 0, 3], zero_mask = [1]\<rparr>]"
    "sparse_layers (world unheld_state) = [\<lparr>weight = [5, 7], zero_mask = [0]\<rparr>]"
    by (simp_all add: zero_state_def unheld_state_def sparse_layers_def List.map_filter_simps)
  have b: "sparse_layers (world (train_batch (nb_torch (toy_notebook toy_batches 3))
        (sparse_cnn (toy_notebook toy_batches 3)) (sgd (toy_notebook toy_batches 3))
        (nll_loss (toy_notebook toy_batches 3)) (Some post_batch) ([1, 2], [1, 0]) zero_state))
       = [\<lparr>weight = [1, 0, 4], zero_mask = [1]\<rparr>]"
    by (simp add: train_batch_def effect_def toy_notebook_def toy_torch_def toy_model_def
        toy_sgd_def toy_loss_def zero_state_def post_batch_def module_apply_def rezero_def
        sparse_layers_def List.map_filter_simps Let_def)
  have c: "sparse_layers (world (train (nb_torch (toy_notebook toy_batches 3))
        (sparse_cnn (toy_notebook toy_batches 3)) first_loader (sgd (toy_notebook toy_batches 3))
        (nll_loss (toy_notebook toy_batches 3)) (Some post_batch) zero_state))
       = [\<lparr>weight = [2, 0, 5], zero_mask = [1]\<rparr>]"
    by (simp add: train_def train_batch_def effect_def toy_notebook_def toy_torch_def
        toy_model_def toy_sgd_def toy_loss_def zero_state_def post_batch_def module_apply_def
        rezero_def sparse_layers_def List.map_filter_simps Let_def toy_batches_def)
  have d: "fst (script (toy_notebook toy_batches 3) zero_state) = None"
    "sparse_layers (world (snd (script (toy_notebook toy_batches 3) zero_state)))
       = [\<lparr>weight = [20, 0, 23], zero_mask = [1]\<rparr>]"
    by (simp_all add: script_def later_cells_def train_def train_batch_def test_def effect_def
        toy_notebook_def toy_torch_def toy_model_def toy_sgd_def toy_loss_def zero_state_def
        post_batch_def module_apply_def rezero_def eq_sum_def toy_batches_def
        sparse_layers_def List.map_filter_simps Let_def EPOCHS_def NOISE_LEVELS_def
        upt_conv_Cons)
  have e: "fst (script (toy_notebook [] 3) unheld_state) = None"
    "sparse_layers (world (snd (script (toy_notebook [] 3) unheld_state)))
       = [\<lparr>weight = [5, 7], zero_mask = [0]\<rparr>]"
    by (simp_all add: script_def later_cells_def train_def test_def effect_def
        toy_notebook_def toy_torch_def toy_model_def toy_sgd_def toy_loss_def
        unheld_state_def post_batch_def module_apply_def rezero_def
        sparse_layers_def List.map_filter_simps Let_def EPOCHS_def NOISE_LEVELS_def
        upt_conv_Cons)
  show ?thesis
    unfolding sparsity_held_def a b c d e
    by (simp add: masked_zero_def zero_fraction_def zero_entries_def)
qed

text \<open>
  Claim C5, amended, with \<open>rezero_weights\<close> as the spec describes it: after every batch
  of a training pass that is given \<open>post_batch\<close>, the callback has applied
  \<open>rezero_weights\<close> to every module of the model and every masked entry of every sparse
  layer is zero; \<open>rezero_weights\<close> changes no mask, no size and no entry outside the
  mask. In a run of the script every optimizer step, of the first-epoch pass and of the
  later epochs alike, is followed by the callback. When switching modes, the forward
  pass, \<^verbatim>\<open>torch.no_grad()\<close> and data loading keep masked entries at zero, every masked
  entry is zero at the end of each training pass and at the end of the script, provided
  the masked entries were zero at its start or its loader (for the script, the
  first-epoch loader) yields a batch. The fraction of zero entries of a sparse layer
  does not stay fixed: when the masked entries are zero, the zero entries are at least as
  many as the entries under the mask. When no operation of the framework writes a mask
  or a size, the masks and sizes at the end of the script are those at its start.
\<close>

theorem post_batch_keeps_sparsity:
  assumes "evaluation_preserves sparsity_held N"
  shows "sparsity_held (world (train_batch (nb_torch N) (sparse_cnn N) (sgd N) (nll_loss N)
            (Some post_batch) batch s'))
       \<and> world (train_batch (nb_torch N) (sparse_cnn N) (sgd N) (nll_loss N)
            (Some post_batch) batch s') =
           post_batch (world (train_batch (nb_torch N) (sparse_cnn N) (sgd N) (nll_loss N)
            None batch s'))
       \<and> layers (post_batch w) = map rezero_weights (layers w)
       \<and> zero_mask (rezero l) = zero_mask l
       \<and> length (weight (rezero l)) = length (weight l)
       \<and> (\<forall>j. j < length (weight l) \<longrightarrow>
             weight (rezero l) ! j = (if j \<in> set (zero_mask l) then 0 else weight l ! j))
       \<and> (\<exists>k. training_calls (new_events s (snd (script N s))) =
              concat (replicate k [ZeroGrad, Backward, OptimizerStep, PostBatchCallback]))
       \<and> (sparsity_held (world s')
            \<or> fst (iterate (nb_torch N) loader (train_mode (sparse_cnn N) (world s'))) \<noteq> []
           \<longrightarrow> sparsity_held (world (train (nb_torch N) (sparse_cnn N) loader (sgd N)
                  (nll_loss N) (Some post_batch) s')))
       \<and> (sparsity_held (world s)
            \<or> fst (iterate (nb_torch N) first_loader (train_mode (sparse_cnn N) (world s)))
                \<noteq> []
           \<longrightarrow> sparsity_held (world (snd (script N s))))
       \<and> (masked_zero l \<longrightarrow> masked_entries l \<le> zero_entries l)
       \<and> (framework_keeps sparsity N \<longrightarrow>
             sparsity (world (snd (script N s))) = sparsity (world s))"
proof -
  have a: "sparsity_held (world (train_batch (nb_torch N) (sparse_cnn N) (sgd N) (nll_loss N)
            (Some post_batch) batch s'))"
    by (simp add: world_train_batch sparsity_held_post_batch)
  have c: "world (train_batch (nb_torch N) (sparse_cnn N) (sgd N) (nll_loss N)
            (Some post_batch) batch s') =
           post_batch (world (train_batch (nb_torch N) (sparse_cnn N) (sgd N) (nll_loss N)
            None batch s'))"
    by (simp add: world_train_batch)
  have d: "layers (post_batch w) = map rezero_weights (layers w)"
    by (simp add: post_batch_def module_apply_def)
  obtain evs k where t: "trace (snd (script N s)) = trace s @ evs"
    and tc: "training_calls evs =
        concat (replicate k [ZeroGrad, Backward, OptimizerStep, PostBatchCallback])"
    using script_summary[of N s] by (elim exE conjE) (rule that)
  have b: "\<exists>k. training_calls (new_events s (snd (script N s))) =
              concat (replicate k [ZeroGrad, Backward, OptimizerStep, PostBatchCallback])"
    using tc by (auto simp: new_events_append[OF t])
  have e: "sparsity_held (world (train (nb_torch N) (sparse_cnn N) loader (sgd N)
                  (nll_loss N) (Some post_batch) s'))"
    if "sparsity_held (world s')
        \<or> fst (iterate (nb_torch N) loader (train_mode (sparse_cnn N) (world s'))) \<noteq> []"
    using assms that by (rule train_held)
  have f: "sparsity_held (world (snd (script N s)))"
    if "sparsity_held (world s)
        \<or> fst (iterate (nb_torch N) first_loader (train_mode (sparse_cnn N) (world s))) \<noteq> []"
    using assms that by (rule script_held)
  have g: "masked_entries l \<le> zero_entries l" if "masked_zero l"
    using that by (rule masked_entries_le)
  have h: "sparsity (world (snd (script N s))) = sparsity (world s)"
    if "framework_keeps sparsity N"
    using that by (rule script_keeps)
  show ?thesis
    using a b c d e f g h by (simp add: rezero_nth)
qed

theorem post_batch_keeps_sparsity_witness:
  "evaluation_preserves sparsity_held (toy_notebook toy_batches 3)
   \<and> fst (iterate (nb_torch (toy_notebook toy_batches 3)) first_loader
          (train_mode (sparse_cnn (toy_notebook toy_batches 3)) (world toy_state))) = toy_batches
   \<and> toy_batches = [([1, 2], [1, 0]), ([0], [1])]
   \<and> sparsity_held (world (snd (script (toy_notebook toy_batches 3) toy_state)))
   \<and> sparsity_held (world (train_batch (nb_torch (toy_notebook toy_batches 3))
        (sparse_cnn (toy_notebook toy_batches 3)) (sgd (toy_notebook toy_batches 3))
        (nll_loss (toy_notebook toy_batches 3)) (Some post_batch) ([1, 2], [1, 0]) toy_state))
   \<and> framework_keeps sparsity (toy_notebook toy_batches 3)
   \<and> sparsity (world (snd (script (toy_notebook toy_batches 3) toy_state))) = [([1], 3)]"
proof -
  have e: "sparsity (world toy_state) = [([1], 3)]"
    by (simp add: sparsity_def sparse_layers_def toy_state_def List.map_filter_simps)
  have i: "fst (iterate (nb_torch (toy_notebook toy_batches 3)) first_loader
          (train_mode (sparse_cnn (toy_notebook toy_batches 3)) (world toy_state))) = toy_batches"
    by (simp add: toy_notebook_def toy_torch_def)
  have b: "toy_batches = [([1, 2], [1, 0]), ([0], [1])]"
    by (simp add: toy_batches_def)
  have n: "fst (iterate (nb_torch (toy_notebook toy_batches 3)) first_loader
          (train_mode (sparse_cnn (toy_notebook toy_batches 3)) (world toy_state))) \<noteq> []"
    unfolding i by (simp add: b)
  note th = post_batch_keeps_sparsity[where N = "toy_notebook toy_batches 3"
      and s = toy_state and s' = toy_state and batch = "([1, 2], [1, 0])"
      and w = "world toy_state" and loader = first_loader
      and l = "\<lparr>weight = [1 / 2, 0, 3], zero_mask = [1]\<rparr>",
      OF toy_preserves_held[of toy_batches 3]]
  note c1 = th[THEN conjunct1]
  note c9 = th[THEN conjunct2, THEN conjunct2, THEN conjunct2, THEN conjunct2,
      THEN conjunct2, THEN conjunct2, THEN conjunct2, THEN conjunct2, THEN conjunct1,
      rule_format, OF disjI2, OF n]
  note c11 = th[THEN conjunct2, THEN conjunct2, THEN conjunct2, THEN conjunct2,
      THEN conjunct2, THEN conjunct2, THEN conjunct2, THEN conjunct2, THEN conjunct2,
      THEN conjunct2, rule_format, OF toy_keeps_sparsity[of toy_batches 3]]
  show ?thesis
    using toy_preserves_held[of toy_batches 3] toy_keeps_sparsity[of toy_batches 3] i b c1 c9
      c11[unfolded e]
    by (intro conjI)
qed

end
